theory Spec2Isabelle
  imports Main "HOL-Library.AList"
begin

section \<open>JavaScript values\<close>

text \<open>
  The backend is untyped JavaScript: request payloads, document fields and claims are
  plain values. \<open>JTime\<close> stands for a server timestamp, \<open>JObj\<close> for an object
  literal (keys in insertion order), \<open>JArr\<close> for an array.
\<close>

datatype jsval = JUndefined | JNull | JBool bool | JNum int | JStr string | JTime nat
  | JObj "(string \<times> jsval) list" | JArr "jsval list"

type_synonym obj = "(string \<times> jsval) list"

text \<open>\<open>if (v)\<close> and \<open>!v\<close>.\<close>

fun truthy :: "jsval \<Rightarrow> bool" where
  "truthy JUndefined = False"
| "truthy JNull = False"
| "truthy (JBool b) = b"
| "truthy (JNum n) = (n \<noteq> 0)"
| "truthy (JStr s) = (s \<noteq> [])"
| "truthy (JTime t) = True"
| "truthy (JObj kv) = True"
| "truthy (JArr xs) = True"

fun falsy :: "jsval \<Rightarrow> bool" where
  "falsy JUndefined = True"
| "falsy JNull = True"
| "falsy (JBool b) = (b = False)"
| "falsy (JNum n) = (n = 0)"
| "falsy (JStr s) = (s = [])"
| "falsy (JTime t) = False"
| "falsy (JObj kv) = False"
| "falsy (JArr xs) = False"

text \<open>
  \<open>a === b\<close>. Primitives compare by value. Objects, arrays and timestamps compare by
  reference; every comparison of the program is between a literal and a value read from a
  request or a snapshot, or between values of two different snapshots, so two references
  are never the same one.
\<close>

fun is_ref :: "jsval \<Rightarrow> bool" where
  "is_ref (JObj kv) = True"
| "is_ref (JArr xs) = True"
| "is_ref (JTime t) = True"
| "is_ref v = False"

definition strict_eq :: "jsval \<Rightarrow> jsval \<Rightarrow> bool" where
  "strict_eq a b = (if is_ref a then False else a = b)"

text \<open>\<open>xs.includes(v)\<close>.\<close>

definition array_includes :: "jsval list \<Rightarrow> jsval \<Rightarrow> bool" where
  "array_includes xs v = list_ex (\<lambda>x. strict_eq x v) xs"

text \<open>\<open>a || b\<close> on values.\<close>

definition js_or :: "jsval \<Rightarrow> jsval \<Rightarrow> jsval" where
  "js_or a b = (if truthy a then a else b)"

text \<open>Property access \<open>o.k\<close> on an object: a missing key reads as \<open>undefined\<close>.\<close>

definition field :: "obj \<Rightarrow> string \<Rightarrow> jsval" where
  "field d k = (case map_of d k of None \<Rightarrow> JUndefined | Some v \<Rightarrow> v)"

text \<open>
  \<open>{...target, ...source}\<close>, and a document update with the fields of \<open>source\<close>: each key
  of \<open>source\<close> is set in \<open>target\<close>, in place when the key is there, appended otherwise.
  Should a list hold a key twice, its first entry is the one that counts, as for \<open>field\<close>.
\<close>

definition assign :: "obj \<Rightarrow> obj \<Rightarrow> obj" where
  "assign target source = foldr (\<lambda>(k, v). AList.update k v) source target"

text \<open>
  A value inside a template literal. Wherever the program interpolates a value, it is a
  document identifier or has just been validated against a list of strings.
\<close>

fun template :: "jsval \<Rightarrow> string" where
  "template (JStr s) = s"
| "template v = []"

section \<open>The document store, the identity provider and errors\<close>

datatype coll = Users | Assessments

fun coll_name :: "coll \<Rightarrow> string" where
  "coll_name Users = ''users''"
| "coll_name Assessments = ''assessments''"

text \<open>
  The calls that change one of the two stores, in the order they were made:
  \<open>SetClaims uid claims\<close> is \<open>setCustomUserClaims\<close>, \<open>DocWrite c id data\<close> a
  \<open>set\<close>, \<open>add\<close> or \<open>update\<close> of a document with the fields \<open>data\<close>.
\<close>

datatype effect = SetClaims string obj | DocWrite coll string obj

text \<open>
  The state the functions run against: the two collections (identifier and fields of
  each document), the identity provider's user records (\<open>customClaims\<close> among their
  properties), and the log of the writes made so far.
\<close>

record world =
  users :: "(string \<times> obj) list"
  assessments :: "(string \<times> obj) list"
  identities :: "(string \<times> obj) list"
  effects :: "effect list"

fun coll_get :: "coll \<Rightarrow> world \<Rightarrow> (string \<times> obj) list" where
  "coll_get Users w = users w"
| "coll_get Assessments w = assessments w"

fun coll_put :: "coll \<Rightarrow> (string \<times> obj) list \<Rightarrow> world \<Rightarrow> world" where
  "coll_put Users ds w = w\<lparr>users := ds\<rparr>"
| "coll_put Assessments ds w = w\<lparr>assessments := ds\<rparr>"

datatype code = Unauthenticated | PermissionDenied | InvalidArgument | FailedPrecondition
  | Internal

text \<open>What is thrown: \<open>new functions.https.HttpsError(code, message)\<close> or a plain
  \<open>Error(message)\<close> of the program or of a client library.\<close>

datatype js_error = HttpsError code string | Error string

fun message :: "js_error \<Rightarrow> string" where
  "message (HttpsError c m) = m"
| "message (Error m) = m"

text \<open>An asynchronous computation: it runs on a state and throws or returns, with the
  state it leaves behind in both cases.\<close>

type_synonym 'a io = "world \<Rightarrow> (js_error + 'a) \<times> world"

definition return :: "'a \<Rightarrow> 'a io" where
  "return x = (\<lambda>w. (Inr x, w))"

definition throw :: "js_error \<Rightarrow> 'a io" where
  "throw e = (\<lambda>w. (Inl e, w))"

text \<open>\<open>const x = await m; f x\<close>.\<close>

definition await :: "'a io \<Rightarrow> ('a \<Rightarrow> 'b io) \<Rightarrow> 'b io" where
  "await m f = (\<lambda>w. case m w of (Inl e, w') \<Rightarrow> (Inl e, w') | (Inr x, w') \<Rightarrow> f x w')"

text \<open>\<open>try { m } catch (error) { h error }\<close>.\<close>

definition try_catch :: "'a io \<Rightarrow> (js_error \<Rightarrow> 'a io) \<Rightarrow> 'a io" where
  "try_catch m h = (\<lambda>w. case m w of (Inl e, w') \<Rightarrow> h e w' | (Inr x, w') \<Rightarrow> (Inr x, w'))"

subsection \<open>The client libraries\<close>

text \<open>
  \<open>db.collection(c).doc(id)\<close>: the path has to be a non-empty string, anything else
  is refused by the client.
\<close>

definition doc :: "jsval \<Rightarrow> string io" where
  "doc i = (case i of
      JStr s \<Rightarrow> if s = [] then throw (Error ''invalid document path'') else return s
    | _ \<Rightarrow> throw (Error ''invalid document path''))"

text \<open>\<open>ref.get()\<close>: the snapshot, \<open>None\<close> when \<open>exists\<close> is false.\<close>

definition fs_get :: "coll \<Rightarrow> string \<Rightarrow> obj option io" where
  "fs_get c s = (\<lambda>w. (Inr (map_of (coll_get c w) s), w))"

text \<open>\<open>ref.update(data)\<close>: sets the fields of \<open>data\<close>, fails on a missing document.\<close>

definition fs_update :: "coll \<Rightarrow> string \<Rightarrow> obj \<Rightarrow> unit io" where
  "fs_update c s data = (\<lambda>w. case map_of (coll_get c w) s of
      None \<Rightarrow> (Inl (Error ''NOT_FOUND: no document to update''), w)
    | Some d \<Rightarrow> (Inr (),
        (coll_put c (AList.update s (assign d data) (coll_get c w)) w)
          \<lparr>effects := effects w @ [DocWrite c s data]\<rparr>))"

text \<open>\<open>ref.set(data)\<close>: creates the document or replaces all its fields.\<close>

definition fs_set :: "coll \<Rightarrow> string \<Rightarrow> obj \<Rightarrow> unit io" where
  "fs_set c s data = (\<lambda>w. (Inr (),
      (coll_put c (AList.update s data (coll_get c w)) w)
        \<lparr>effects := effects w @ [DocWrite c s data]\<rparr>))"

text \<open>
  \<open>collection.add(data)\<close>: a new document under an identifier the store generates,
  here the parameter \<open>auto_id\<close>; it returns the reference, modelled by that identifier.
  The store never generates the identifier of an existing document; should \<open>auto_id\<close> be
  one, the call fails.
\<close>

definition fs_add :: "coll \<Rightarrow> obj \<Rightarrow> string \<Rightarrow> string io" where
  "fs_add c data auto_id = (\<lambda>w. case map_of (coll_get c w) auto_id of
      Some d \<Rightarrow> (Inl (Error ''ALREADY_EXISTS''), w)
    | None \<Rightarrow> (Inr auto_id,
        (coll_put c (AList.update auto_id data (coll_get c w)) w)
          \<lparr>effects := effects w @ [DocWrite c auto_id data]\<rparr>))"

text \<open>
  \<open>query.where(field, '==', value)\<close> for each condition, then \<open>get()\<close>. Every caller
  passes the operator \<open>'=='\<close>, so a condition is its field and its value; a document
  without the field matches no condition.
\<close>

definition matches :: "obj \<Rightarrow> (string \<times> jsval) \<Rightarrow> bool" where
  "matches d c = (map_of d (fst c) = Some (snd c))"

definition fs_query :: "coll \<Rightarrow> (string \<times> jsval) list \<Rightarrow> (string \<times> obj) list io" where
  "fs_query c conditions =
     (\<lambda>w. (Inr (filter (\<lambda>(i, d). list_all (matches d) conditions) (coll_get c w)), w))"

text \<open>
  \<open>admin.auth().setCustomUserClaims(uid, claims)\<close>: replaces the claims of the user
  record; the provider refuses an identifier that is no non-empty string or that it does
  not know.
\<close>

definition setCustomUserClaims :: "jsval \<Rightarrow> obj \<Rightarrow> unit io" where
  "setCustomUserClaims i claims = (\<lambda>w. case i of
      JStr s \<Rightarrow>
        (if s = [] then (Inl (Error ''auth/invalid-uid''), w)
         else case map_of (identities w) s of
             None \<Rightarrow> (Inl (Error ''auth/user-not-found''), w)
           | Some r \<Rightarrow> (Inr (),
               w\<lparr>identities :=
                    AList.update s (AList.update ''customClaims'' (JObj claims) r) (identities w),
                  effects := effects w @ [SetClaims s claims]\<rparr>))
    | _ \<Rightarrow> (Inl (Error ''auth/invalid-uid''), w))"

text \<open>
  \<open>admin.auth().createUser(properties)\<close>: a new user record under an identifier the
  provider generates, here the parameter \<open>new_uid\<close>; the provider refuses an e-mail
  address that is already registered, and the call fails should \<open>new_uid\<close> be the
  identifier of an existing record.
\<close>

definition createUser :: "obj \<Rightarrow> string \<Rightarrow> string io" where
  "createUser properties new_uid = (\<lambda>w.
     if list_ex (\<lambda>(i, r). field r ''email'' = field properties ''email'') (identities w)
     then (Inl (Error ''auth/email-already-exists''), w)
     else case map_of (identities w) new_uid of
         Some r \<Rightarrow> (Inl (Error ''auth/uid-already-exists''), w)
       | None \<Rightarrow> (Inr new_uid,
           w\<lparr>identities := AList.update new_uid properties (identities w)\<rparr>))"

section \<open>Database utility functions\<close>

text \<open>\<open>{ id: doc.id, ...doc.data() }\<close>.\<close>

definition with_id :: "string \<Rightarrow> obj \<Rightarrow> obj" where
  "with_id s d = assign [(''id'', JStr s)] d"

definition not_found :: "coll \<Rightarrow> string \<Rightarrow> js_error" where
  "not_found c s = Error (''Document not found in '' @ coll_name c @ '' with ID: '' @ s)"

definition getDocById :: "coll \<Rightarrow> jsval \<Rightarrow> obj io" where
  "getDocById c i =
     try_catch
       (await (doc i) (\<lambda>s.
        await (fs_get c s) (\<lambda>snapshot.
          case snapshot of
            None \<Rightarrow> throw (not_found c s)
          | Some d \<Rightarrow> return (with_id s d))))
       (\<lambda>error. throw error)"

text \<open>\<open>createDoc(collection, data, id = null)\<close>; it returns the reference, modelled by
  the document's identifier.\<close>

definition createDoc :: "coll \<Rightarrow> obj \<Rightarrow> jsval \<Rightarrow> string \<Rightarrow> string io" where
  "createDoc c data i auto_id =
     try_catch
       (if truthy i
        then await (doc i) (\<lambda>s. await (fs_set c s data) (\<lambda>u. return s))
        else fs_add c data auto_id)
       (\<lambda>error. throw error)"

definition updateDoc :: "coll \<Rightarrow> jsval \<Rightarrow> obj \<Rightarrow> string io" where
  "updateDoc c i data =
     try_catch
       (await (doc i) (\<lambda>s.
        await (fs_get c s) (\<lambda>snapshot.
          case snapshot of
            None \<Rightarrow> throw (not_found c s)
          | Some d \<Rightarrow> await (fs_update c s data) (\<lambda>u. return s))))
       (\<lambda>error. throw error)"

definition queryDocs :: "coll \<Rightarrow> (string \<times> jsval) list \<Rightarrow> obj list io" where
  "queryDocs c conditions =
     try_catch
       (await (fs_query c conditions) (\<lambda>docs.
          return (map (\<lambda>(i, d). with_id i d) docs)))
       (\<lambda>error. throw error)"

section \<open>Authentication utility functions\<close>

definition verifyUserRole :: "jsval \<Rightarrow> jsval \<Rightarrow> bool io" where
  "verifyUserRole userId requiredRoles =
     try_catch
       (await (getDocById Users userId) (\<lambda>user.
          let roles = (case requiredRoles of JArr xs \<Rightarrow> xs | v \<Rightarrow> [v]);
              hasRole = array_includes roles (field user ''role'');
              isApproved = (strict_eq (field user ''approved'') (JBool True)
                            \<or> strict_eq (field user ''role'') (JStr ''admin''))
          in return (hasRole \<and> isApproved)))
       (\<lambda>error. return False)"

definition isUserApproved :: "jsval \<Rightarrow> bool io" where
  "isUserApproved userId =
     try_catch
       (await (getDocById Users userId) (\<lambda>user.
          return (strict_eq (field user ''approved'') (JBool True)
                  \<or> strict_eq (field user ''role'') (JStr ''admin''))))
       (\<lambda>error. return False)"

text \<open>\<open>createUserRecord(userId, userData)\<close>, run at server time \<open>now\<close>; \<open>auto_id\<close> is the
  identifier the store would generate if \<open>userId\<close> were empty.\<close>

definition createUserRecord :: "jsval \<Rightarrow> obj \<Rightarrow> nat \<Rightarrow> string \<Rightarrow> string io" where
  "createUserRecord userId userData now auto_id =
     try_catch
       (let displayName = field userData ''displayName'';
            email = field userData ''email'';
            role = field userData ''role'';
            userRole = js_or role (JStr ''lecturer'');
            isAdmin = strict_eq userRole (JStr ''admin'');
            approved = isAdmin;
            userDoc = [(''displayName'', displayName),
                       (''email'', email),
                       (''role'', userRole),
                       (''approved'', JBool approved),
                       (''active'', JBool True),
                       (''createdAt'', JTime now),
                       (''updatedAt'', JTime now)]
        in createDoc Users userDoc userId auto_id)
       (\<lambda>error. throw error)"

section \<open>User triggers\<close>

definition validRoles :: "string list" where
  "validRoles = [''admin'', ''moderator'', ''lecturer'']"

text \<open>
  \<open>const customClaims = {}; validRoles.forEach(role => { customClaims[role] = role === r; })\<close>,
  the loop that the two triggers and \<open>updateUserRole\<close> each contain.
\<close>

definition role_flags :: "jsval \<Rightarrow> obj" where
  "role_flags r =
     fold (\<lambda>role customClaims. AList.update role (JBool (strict_eq (JStr role) r)) customClaims)
       validRoles []"

text \<open>The trigger on \<open>users/{userId}\<close> created; \<open>userData\<close> is the snapshot's data.\<close>

definition onUserCreate :: "string \<Rightarrow> obj \<Rightarrow> nat \<Rightarrow> jsval io" where
  "onUserCreate userId userData now =
     try_catch
       (let isAdmin = strict_eq (field userData ''role'') (JStr ''admin'');
            approved = isAdmin;
            customClaims = role_flags (field userData ''role'');
            customClaims = (if isAdmin then AList.update ''approved'' (JBool True) customClaims
                            else customClaims)
        in await (if isAdmin then setCustomUserClaims (JStr userId) customClaims
                  else return ()) (\<lambda>u.
           await (doc (JStr userId)) (\<lambda>s.
           await (fs_update Users s
                    [(''approved'', JBool approved),
                     (''customClaims'', if isAdmin then JObj customClaims else JNull),
                     (''updatedAt'', JTime now)]) (\<lambda>u.
           return JNull))))
       (\<lambda>error. return JNull)"

text \<open>The trigger on \<open>users/{userId}\<close> updated, with the data of the snapshots before and
  after the change.\<close>

definition onUserUpdate :: "string \<Rightarrow> obj \<Rightarrow> obj \<Rightarrow> nat \<Rightarrow> jsval io" where
  "onUserUpdate userId beforeData afterData now =
     try_catch
       (if \<not> strict_eq (field beforeData ''role'') (field afterData ''role'')
        then
          let customClaims = role_flags (field afterData ''role'')
          in await (setCustomUserClaims (JStr userId) customClaims) (\<lambda>u.
             await (doc (JStr userId)) (\<lambda>s.
             await (fs_update Users s
                      [(''customClaims'', JObj customClaims),
                       (''updatedAt'', JTime now)]) (\<lambda>u.
             return JNull)))
        else return JNull)
       (\<lambda>error. return JNull)"

section \<open>User API endpoints\<close>

text \<open>\<open>context.auth\<close>: absent for an unauthenticated call, otherwise the caller's
  identifier and the claims of the caller's token.\<close>

record auth =
  uid :: string
  token :: obj

text \<open>\<open>const { a, b } = data\<close>: a type error on \<open>null\<close> and \<open>undefined\<close>; any other
  value that is no object has none of the properties.\<close>

definition destructure :: "jsval \<Rightarrow> obj io" where
  "destructure data = (case data of
      JUndefined \<Rightarrow> throw (Error ''Cannot destructure property of undefined'')
    | JNull \<Rightarrow> throw (Error ''Cannot destructure property of null'')
    | JObj kv \<Rightarrow> return kv
    | _ \<Rightarrow> return [])"

definition approveUser :: "jsval \<Rightarrow> auth option \<Rightarrow> nat \<Rightarrow> obj io" where
  "approveUser data ctx now =
     try_catch
       (case ctx of
          None \<Rightarrow> throw (HttpsError Unauthenticated ''You must be logged in to approve users.'')
        | Some a \<Rightarrow>
            let isAdmin = field (token a) ''admin''
            in if falsy isAdmin
               then throw (HttpsError PermissionDenied ''Only admins can approve users.'')
               else await (destructure data) (\<lambda>d.
                 let userId = field d ''userId'';
                     approved = field d ''approved''
                 in if falsy userId \<or> strict_eq approved JUndefined
                    then throw (HttpsError InvalidArgument
                                  ''User ID and approval status are required.'')
                    else
                      await (updateDoc Users userId
                               [(''approved'', approved), (''updatedAt'', JTime now)]) (\<lambda>u.
                      await (if truthy approved
                             then await (getDocById Users userId) (\<lambda>user.
                                    let role = js_or (field user ''role'') (JStr ''lecturer'');
                                        customClaims =
                                          [(''admin'', JBool (strict_eq role (JStr ''admin''))),
                                           (''moderator'', JBool (strict_eq role (JStr ''moderator''))),
                                           (''lecturer'', JBool (strict_eq role (JStr ''lecturer''))),
                                           (''approved'', JBool True)]
                                    in setCustomUserClaims userId customClaims)
                             else return ()) (\<lambda>u.
                      return [(''success'', JBool True),
                              (''message'', JStr (if truthy approved
                                                  then ''User approved successfully''
                                                  else ''User rejected successfully''))]))))
       (\<lambda>error. throw (HttpsError Internal (message error)))"

definition updateUserRole :: "jsval \<Rightarrow> auth option \<Rightarrow> nat \<Rightarrow> obj io" where
  "updateUserRole data ctx now =
     try_catch
       (case ctx of
          None \<Rightarrow> throw (HttpsError Unauthenticated
                            ''You must be logged in to update user roles.'')
        | Some a \<Rightarrow>
            let isAdmin = field (token a) ''admin''
            in if falsy isAdmin
               then throw (HttpsError PermissionDenied ''Only admins can update user roles.'')
               else await (destructure data) (\<lambda>d.
                 let userId = field d ''userId'';
                     role = field d ''role''
                 in if falsy userId \<or> falsy role
                    then throw (HttpsError InvalidArgument ''User ID and role are required.'')
                    else if \<not> array_includes (map JStr validRoles) role
                    then throw (HttpsError InvalidArgument
                                  ''Role must be one of: admin, moderator, lecturer'')
                    else
                      await (updateDoc Users userId
                               [(''role'', role), (''updatedAt'', JTime now)]) (\<lambda>u.
                      let customClaims = role_flags role
                      in await (setCustomUserClaims userId customClaims) (\<lambda>u.
                         return [(''success'', JBool True),
                                 (''message'', JStr (''User role updated to '' @ template role
                                                     @ '' successfully''))]))))
       (\<lambda>error. throw (HttpsError Internal (message error)))"

text \<open>\<open>createFirstAdmin(data, context)\<close>; \<open>new_uid\<close> is the identifier the identity provider
  gives the user it creates.\<close>

definition createFirstAdmin :: "jsval \<Rightarrow> nat \<Rightarrow> string \<Rightarrow> obj io" where
  "createFirstAdmin data now new_uid =
     try_catch
       (if falsy data
        then throw (HttpsError InvalidArgument ''No data provided'')
        else await (destructure data) (\<lambda>d.
          let email = field d ''email'';
              password = field d ''password'';
              displayName = field d ''displayName''
          in if falsy email \<or> falsy password \<or> falsy displayName
             then throw (HttpsError InvalidArgument
                           ''Email, password, and display name are required.'')
             else
               await (queryDocs Users [(''role'', JStr ''admin'')]) (\<lambda>adminUsers.
               if length adminUsers > 0
               then throw (HttpsError FailedPrecondition
                             ''An admin user already exists. Cannot create the first admin.'')
               else
                 await (createUser [(''email'', email),
                                    (''password'', password),
                                    (''displayName'', displayName),
                                    (''emailVerified'', JBool True)] new_uid) (\<lambda>userRecord.
                 let customClaims = [(''admin'', JBool True),
                                     (''moderator'', JBool False),
                                     (''lecturer'', JBool False),
                                     (''approved'', JBool True)]
                 in await (setCustomUserClaims (JStr userRecord) customClaims) (\<lambda>u.
                    await (doc (JStr userRecord)) (\<lambda>s.
                    await (fs_set Users s
                             [(''displayName'', displayName),
                              (''email'', email),
                              (''role'', JStr ''admin''),
                              (''approved'', JBool True),
                              (''active'', JBool True),
                              (''customClaims'', JObj customClaims),
                              (''createdAt'', JTime now),
                              (''updatedAt'', JTime now)]) (\<lambda>u.
                    return [(''success'', JBool True),
                            (''message'', JStr ''First admin user created successfully''),
                            (''userId'', JStr userRecord)])))))))
       (\<lambda>error. throw (HttpsError Internal (message error)))"

section \<open>Assessment API endpoints\<close>

text \<open>\<open>createAssessment(data, context)\<close>; \<open>auto_id\<close> is the identifier the store generates
  for the new document.\<close>

definition createAssessment :: "jsval \<Rightarrow> auth option \<Rightarrow> nat \<Rightarrow> string \<Rightarrow> obj io" where
  "createAssessment data ctx now auto_id =
     try_catch
       (case ctx of
          None \<Rightarrow> throw (HttpsError Unauthenticated
                            ''You must be logged in to create an assessment.'')
        | Some a \<Rightarrow>
            let userId = JStr (uid a)
            in await (verifyUserRole userId (JArr [JStr ''lecturer'', JStr ''admin''])) (\<lambda>isLecturer.
               if \<not> isLecturer
               then throw (HttpsError PermissionDenied ''Only lecturers can create assessments.'')
               else await (destructure data) (\<lambda>d.
                 let title = field d ''title'';
                     description = field d ''description'';
                     content = field d ''content'';
                     type = field d ''type''
                 in if falsy title \<or> falsy content \<or> falsy type
                    then throw (HttpsError InvalidArgument
                                  ''Title, content, and type are required.'')
                    else
                      let assessmentData =
                            [(''title'', title),
                             (''description'', js_or description (JStr [])),
                             (''content'', content),
                             (''type'', type),
                             (''status'', JStr ''draft''),
                             (''lecturerId'', userId),
                             (''moderatorId'', JNull),
                             (''feedback'', JNull),
                             (''createdAt'', JTime now),
                             (''updatedAt'', JTime now)]
                      in await (createDoc Assessments assessmentData JNull auto_id) (\<lambda>docRef.
                         return [(''success'', JBool True),
                                 (''message'', JStr ''Assessment created successfully''),
                                 (''assessmentId'', JStr docRef)]))))
       (\<lambda>error. throw (HttpsError Internal (message error)))"

definition validStatuses :: "string list" where
  "validStatuses = [''approved'', ''rejected'', ''pending_changes'']"

definition moderateAssessment :: "jsval \<Rightarrow> auth option \<Rightarrow> nat \<Rightarrow> obj io" where
  "moderateAssessment data ctx now =
     try_catch
       (case ctx of
          None \<Rightarrow> throw (HttpsError Unauthenticated
                            ''You must be logged in to moderate an assessment.'')
        | Some a \<Rightarrow>
            let userId = JStr (uid a)
            in await (verifyUserRole userId (JArr [JStr ''moderator'', JStr ''admin''])) (\<lambda>isModerator.
               if \<not> isModerator
               then throw (HttpsError PermissionDenied
                             ''Only moderators can moderate assessments.'')
               else await (destructure data) (\<lambda>d.
                 let assessmentId = field d ''assessmentId'';
                     status = field d ''status'';
                     feedback = field d ''feedback''
                 in if falsy assessmentId \<or> falsy status
                    then throw (HttpsError InvalidArgument
                                  ''Assessment ID and status are required.'')
                    else if \<not> array_includes (map JStr validStatuses) status
                    then throw (HttpsError InvalidArgument
                                  ''Status must be one of: approved, rejected, pending_changes'')
                    else
                      let updateData = [(''status'', status),
                                        (''moderatorId'', userId),
                                        (''updatedAt'', JTime now)];
                          updateData = (if truthy feedback
                                        then AList.update ''feedback'' feedback updateData
                                        else updateData)
                      in await (updateDoc Assessments assessmentId updateData) (\<lambda>u.
                         return [(''success'', JBool True),
                                 (''message'', JStr (''Assessment '' @ template status
                                                     @ '' successfully''))]))))
       (\<lambda>error. throw (HttpsError Internal (message error)))"

section \<open>What the properties speak about\<close>

text \<open>The identifier a value denotes when it is used as a document path or as a user
  identifier: the value has to be a non-empty string. And the properties a destructuring
  reads from a value.\<close>

definition doc_key :: "jsval \<Rightarrow> string option" where
  "doc_key i = (case i of JStr s \<Rightarrow> if s = [] then None else Some s | _ \<Rightarrow> None)"

definition props :: "jsval \<Rightarrow> obj" where
  "props data = (case data of JObj kv \<Rightarrow> kv | _ \<Rightarrow> [])"

text \<open>The user-document invariant: an administrator is approved.\<close>

definition admin_approved :: "obj \<Rightarrow> bool" where
  "admin_approved d =
     (if field d ''role'' = JStr ''admin'' then field d ''approved'' = JBool True else True)"

text \<open>The writes made between a state and a later one, and the claims records attached
  among them, each with the identity it was attached to.\<close>

definition new_effects :: "world \<Rightarrow> world \<Rightarrow> effect list" where
  "new_effects w w' = drop (length (effects w)) (effects w')"

fun attached_by :: "effect \<Rightarrow> (string \<times> obj) list" where
  "attached_by (SetClaims s c) = [(s, c)]"
| "attached_by (DocWrite c s data) = []"

definition attached :: "world \<Rightarrow> world \<Rightarrow> (string \<times> obj) list" where
  "attached w w' = concat (map attached_by (new_effects w w'))"

text \<open>
  A claims record \<open>c\<close> matches a role when each of its three role flags is a boolean
  that is true exactly for that role. And the list of the role flags of \<open>c\<close> that are
  true.
\<close>

definition flags_match :: "obj \<Rightarrow> jsval \<Rightarrow> bool" where
  "flags_match c role = list_all (\<lambda>x. field c x = JBool (role = JStr x)) validRoles"

definition true_flags :: "obj \<Rightarrow> string list" where
  "true_flags c = filter (\<lambda>x. field c x = JBool True) validRoles"

text \<open>
  The ordering contract on a list of writes: a document write that carries a claims
  record in \<open>customClaims\<close> comes after the call that attached the same record to the
  same identity. \<open>seen\<close> holds the writes already passed.
\<close>

fun claims_first :: "effect list \<Rightarrow> effect list \<Rightarrow> bool" where
  "claims_first seen [] = True"
| "claims_first seen (SetClaims s c # es) = claims_first (seen @ [SetClaims s c]) es"
| "claims_first seen (DocWrite c s data # es) =
     ((case map_of data ''customClaims'' of
         Some (JObj cl) \<Rightarrow> SetClaims s cl \<in> set seen
       | _ \<Rightarrow> True)
      \<and> claims_first (seen @ [DocWrite c s data]) es)"

text \<open>The stronger contract: the first write of the list, if there is one, attaches claims
  to an identity.\<close>

fun identity_first :: "effect list \<Rightarrow> bool" where
  "identity_first [] = True"
| "identity_first (SetClaims s c # es) = True"
| "identity_first (DocWrite c s data # es) = False"

text \<open>A document without its timestamp fields, and a collection of such documents.\<close>

definition untimed :: "obj \<Rightarrow> obj" where
  "untimed d = AList.delete ''createdAt'' (AList.delete ''updatedAt'' d)"

definition untimed_docs :: "(string \<times> obj) list \<Rightarrow> (string \<times> obj) list" where
  "untimed_docs ds = map (\<lambda>(i, d). (i, untimed d)) ds"

subsection \<open>A small state to run the functions on\<close>

text \<open>
  Four users: \<open>root\<close> an administrator, \<open>u1\<close> an approved lecturer, \<open>u2\<close> a
  lecturer waiting for approval, \<open>m1\<close> an approved moderator; one draft assessment of
  \<open>u1\<close>. Every user has an identity; \<open>u1\<close> and \<open>m1\<close> carry the claims of their approval.
\<close>

definition user_doc :: "string \<Rightarrow> string \<Rightarrow> bool \<Rightarrow> obj" where
  "user_doc name r a =
     [(''displayName'', JStr name),
      (''email'', JStr (name @ ''@example.org'')),
      (''role'', JStr r),
      (''approved'', JBool a),
      (''active'', JBool True),
      (''createdAt'', JTime 1),
      (''updatedAt'', JTime 1)]"

definition approved_claims :: "string \<Rightarrow> obj" where
  "approved_claims r =
     [(''admin'', JBool (r = ''admin'')),
      (''moderator'', JBool (r = ''moderator'')),
      (''lecturer'', JBool (r = ''lecturer'')),
      (''approved'', JBool True)]"

definition campus :: world where
  "campus =
     \<lparr>users = [(''root'', user_doc ''root'' ''admin'' True),
                (''u1'', user_doc ''lee'' ''lecturer'' True),
                (''u2'', user_doc ''max'' ''lecturer'' False),
                (''m1'', user_doc ''mia'' ''moderator'' True)],
      assessments = [(''a1'', [(''title'', JStr ''Exam''),
                               (''description'', JStr []),
                               (''content'', JStr ''Q1''),
                               (''type'', JStr ''exam''),
                               (''status'', JStr ''draft''),
                               (''lecturerId'', JStr ''u1''),
                               (''moderatorId'', JNull),
                               (''feedback'', JNull),
                               (''createdAt'', JTime 2),
                               (''updatedAt'', JTime 2)])],
      identities = [(''root'', [(''email'', JStr ''root@example.org''),
                                (''customClaims'', JObj (approved_claims ''admin''))]),
                    (''u1'', [(''email'', JStr ''lee@example.org''),
                              (''customClaims'', JObj (approved_claims ''lecturer''))]),
                    (''u2'', [(''email'', JStr ''max@example.org'')]),
                    (''m1'', [(''email'', JStr ''mia@example.org''),
                              (''customClaims'', JObj (approved_claims ''moderator''))])],
      effects = []\<rparr>"

text \<open>The state after the role of \<open>u1\<close> was changed to moderator in the document, before
  any trigger has run.\<close>

definition campus_promoted :: world where
  "campus_promoted =
     campus\<lparr>users := AList.update ''u1'' (user_doc ''lee'' ''moderator'' True) (users campus)\<rparr>"

text \<open>The state before any user document or identity exists.\<close>

definition empty_world :: world where
  "empty_world = \<lparr>users = [], assessments = [], identities = [], effects = []\<rparr>"

text \<open>The callers: \<open>root\<close> with an administrator's token, \<open>u1\<close>, \<open>u2\<close> and \<open>m1\<close> with
  theirs.\<close>

definition caller :: "string \<Rightarrow> obj \<Rightarrow> auth option" where
  "caller i claims = Some \<lparr>uid = i, token = claims\<rparr>"

definition root_caller :: "auth option" where
  "root_caller = caller ''root'' (approved_claims ''admin'')"

section \<open>Running the computations\<close>

subsection \<open>Sequencing, objects and lists\<close>

lemma try_catch_rethrow [simp]: "try_catch m (\<lambda>error. throw error) = m"
  by (auto simp: try_catch_def throw_def fun_eq_iff split: prod.splits sum.splits)

lemma await_return [simp]: "await (return x) f = f x"
  by (simp add: await_def return_def)

lemma await_throw [simp]: "await (throw e) f = throw e"
  by (simp add: await_def throw_def)

lemma return_apply [simp]: "return x w = (Inr x, w)"
  by (simp add: return_def)

lemma throw_apply [simp]: "throw e w = (Inl e, w)"
  by (simp add: throw_def)

lemma map_of_assign: "map_of (assign t s) = map_of t ++ map_of s"
proof (induction s)
  case Nil
  show ?case by (simp add: assign_def)
next
  case (Cons a s)
  obtain k v where a: "a = (k, v)" by (cases a)
  have "assign t (a # s) = AList.update k v (assign t s)"
    by (simp add: assign_def a)
  then show ?case
    using Cons by (auto simp: update_conv' a fun_eq_iff map_add_def)
qed

lemma field_assign: "field (assign t s) k = (case map_of s k of None \<Rightarrow> field t k | Some v \<Rightarrow> v)"
  by (simp add: field_def map_of_assign map_add_def split: option.splits)

lemma field_with_id: "k \<noteq> ''id'' \<Longrightarrow> field (with_id s d) k = field d k"
  by (simp add: with_id_def field_assign) (simp add: field_def split: option.splits)

lemma field_Nil: "field [] k = JUndefined"
  by (simp add: field_def)

lemma field_Cons: "field ((k, v) # d) k' = (if k' = k then v else field d k')"
  by (simp add: field_def)

lemma array_includes_strs: "array_includes (map JStr rs) v = (v \<in> JStr ` set rs)"
  by (auto simp: array_includes_def list_ex_iff strict_eq_def)

lemma array_includes_single: "array_includes [JStr r] v = (v = JStr r)"
  by (auto simp: array_includes_def strict_eq_def)

lemma strict_eq_lit [simp]:
  "strict_eq v (JBool b) = (v = JBool b)" "strict_eq v (JStr s) = (v = JStr s)"
  "strict_eq v JUndefined = (v = JUndefined)"
  "strict_eq (JStr s) v = (v = JStr s)"
  by (cases v; auto simp: strict_eq_def)+

lemma falsy_iff: "falsy v = (\<not> truthy v)"
  by (cases v) auto

lemma role_flags_eq:
  "role_flags r = [(''admin'', JBool (r = JStr ''admin'')),
                   (''moderator'', JBool (r = JStr ''moderator'')),
                   (''lecturer'', JBool (r = JStr ''lecturer''))]"
  by (simp add: role_flags_def validRoles_def)

lemma new_effects_simps [simp]:
  "new_effects w w = []"
  "new_effects w (w\<lparr>effects := effects w @ es\<rparr>) = es"
  "new_effects w (w'\<lparr>users := us\<rparr>) = new_effects w w'"
  "new_effects w (w'\<lparr>identities := ids\<rparr>) = new_effects w w'"
  "new_effects w (w'\<lparr>assessments := ass\<rparr>) = new_effects w w'"
  "new_effects w (w'\<lparr>effects := effects w @ es\<rparr>) = es"
  by (simp_all add: new_effects_def)

lemma attached_simps [simp]:
  "attached w w = []"
  "attached w (w\<lparr>effects := effects w @ es\<rparr>) = concat (map attached_by es)"
  "attached w (w'\<lparr>users := us\<rparr>) = attached w w'"
  "attached w (w'\<lparr>identities := ids\<rparr>) = attached w w'"
  "attached w (w'\<lparr>assessments := ass\<rparr>) = attached w w'"
  "attached w (w'\<lparr>effects := effects w @ es\<rparr>) = concat (map attached_by es)"
  by (simp_all add: attached_def)

lemma untimed_docs_update:
  "untimed_docs (AList.update u d ds) = AList.update u (untimed d) (untimed_docs ds)"
  by (induction ds) (auto simp: untimed_docs_def)

lemma untimed_assign_approved:
  "untimed (assign d [(''approved'', v), (''updatedAt'', t)])
     = AList.update ''approved'' v (untimed d)"
  by (simp add: untimed_def assign_def delete_update delete_update_same)

subsection \<open>The client libraries and the database utilities\<close>

lemma getDocById_apply:
  "getDocById c i w =
     (case i of
        JStr s \<Rightarrow>
          if s = [] then (Inl (Error ''invalid document path''), w)
          else (case map_of (coll_get c w) s of
                  None \<Rightarrow> (Inl (not_found c s), w)
                | Some d \<Rightarrow> (Inr (with_id s d), w))
      | _ \<Rightarrow> (Inl (Error ''invalid document path''), w))"
  by (simp add: getDocById_def doc_def fs_get_def await_def split: jsval.splits option.splits)

lemma updateDoc_apply:
  "updateDoc c i data w =
     (case i of
        JStr s \<Rightarrow>
          if s = [] then (Inl (Error ''invalid document path''), w)
          else (case map_of (coll_get c w) s of
                  None \<Rightarrow> (Inl (not_found c s), w)
                | Some d \<Rightarrow> (Inr s,
                    (coll_put c (AList.update s (assign d data) (coll_get c w)) w)
                      \<lparr>effects := effects w @ [DocWrite c s data]\<rparr>))
      | _ \<Rightarrow> (Inl (Error ''invalid document path''), w))"
  by (simp add: updateDoc_def doc_def fs_get_def fs_update_def await_def split: jsval.splits option.splits)

lemma setCustomUserClaims_apply:
  "setCustomUserClaims (JStr s) c w =
     (if s = [] then (Inl (Error ''auth/invalid-uid''), w)
      else case map_of (identities w) s of
          None \<Rightarrow> (Inl (Error ''auth/user-not-found''), w)
        | Some r \<Rightarrow> (Inr (),
            w\<lparr>identities :=
                 AList.update s (AList.update ''customClaims'' (JObj c) r) (identities w),
               effects := effects w @ [SetClaims s c]\<rparr>))"
  by (simp add: setCustomUserClaims_def)

lemma doc_key_Some [simp]: "(doc_key i = Some s) = (i = JStr s \<and> s \<noteq> [])"
  by (cases i) (auto simp: doc_key_def)

lemma doc_key_JStr [simp]: "doc_key (JStr s) = (if s = [] then None else Some s)"
  by (simp add: doc_key_def)

lemma doc_apply: "doc i w =
  (case doc_key i of None \<Rightarrow> (Inl (Error ''invalid document path''), w) | Some s \<Rightarrow> (Inr s, w))"
  by (cases i) (auto simp: doc_def doc_key_def)

lemma destructure_apply:
  "destructure data w =
     (if data = JUndefined then (Inl (Error ''Cannot destructure property of undefined''), w)
      else if data = JNull then (Inl (Error ''Cannot destructure property of null''), w)
      else (Inr (props data), w))"
  by (cases data) (auto simp: destructure_def props_def)

lemma getDocById_key:
  "getDocById c i w =
     (case doc_key i of
        None \<Rightarrow> (Inl (Error ''invalid document path''), w)
      | Some s \<Rightarrow> (case map_of (coll_get c w) s of
                  None \<Rightarrow> (Inl (not_found c s), w)
                | Some d \<Rightarrow> (Inr (with_id s d), w)))"
  by (cases i) (auto simp: getDocById_apply doc_key_def)

lemma updateDoc_key:
  "updateDoc c i data w =
     (case doc_key i of
        None \<Rightarrow> (Inl (Error ''invalid document path''), w)
      | Some s \<Rightarrow> (case map_of (coll_get c w) s of
                  None \<Rightarrow> (Inl (not_found c s), w)
                | Some d \<Rightarrow> (Inr s,
                    (coll_put c (AList.update s (assign d data) (coll_get c w)) w)
                      \<lparr>effects := effects w @ [DocWrite c s data]\<rparr>)))"
  by (cases i) (auto simp: updateDoc_apply doc_key_def)

lemma setCustomUserClaims_key:
  "setCustomUserClaims i c w =
     (case doc_key i of
        None \<Rightarrow> (Inl (Error ''auth/invalid-uid''), w)
      | Some s \<Rightarrow> (case map_of (identities w) s of
          None \<Rightarrow> (Inl (Error ''auth/user-not-found''), w)
        | Some r \<Rightarrow> (Inr (),
            w\<lparr>identities :=
                 AList.update s (AList.update ''customClaims'' (JObj c) r) (identities w),
               effects := effects w @ [SetClaims s c]\<rparr>)))"
  by (cases i) (auto simp: setCustomUserClaims_def doc_key_def)

lemma createDoc_apply:
  "createDoc c data i auto_id w =
     (if truthy i
      then (case doc_key i of
          None \<Rightarrow> (Inl (Error ''invalid document path''), w)
        | Some s \<Rightarrow> (Inr s,
            (coll_put c (AList.update s data (coll_get c w)) w)
              \<lparr>effects := effects w @ [DocWrite c s data]\<rparr>))
      else (case map_of (coll_get c w) auto_id of
          Some d \<Rightarrow> (Inl (Error ''ALREADY_EXISTS''), w)
        | None \<Rightarrow> (Inr auto_id,
            (coll_put c (AList.update auto_id data (coll_get c w)) w)
              \<lparr>effects := effects w @ [DocWrite c auto_id data]\<rparr>)))"
  by (simp add: createDoc_def await_def doc_apply fs_set_def fs_add_def split: option.splits)

lemma queryDocs_apply: "queryDocs c conds w =
   (Inr (map (\<lambda>(i, d). with_id i d)
          (filter (\<lambda>(i, d). list_all (matches d) conds) (coll_get c w))), w)"
  by (simp add: queryDocs_def fs_query_def await_def)

subsection \<open>The functions, path by path\<close>

text \<open>The check both assessment endpoints make: the caller's stored role is one of two
  roles, and the caller is approved or an administrator.\<close>

lemma verifyUserRole_two:
  "verifyUserRole (JStr u) (JArr [JStr r1, JStr r2]) w =
     (Inr (u \<noteq> [] \<and>
           (case map_of (users w) u of
              None \<Rightarrow> False
            | Some usr \<Rightarrow>
                (field usr ''role'' = JStr r1 \<or> field usr ''role'' = JStr r2)
                \<and> (field usr ''approved'' = JBool True \<or> field usr ''role'' = JStr ''admin''))), w)"
  by (auto simp: verifyUserRole_def try_catch_def await_def getDocById_apply field_with_id
        array_includes_def Let_def split: option.splits)

lemma approveUser_apply:
  assumes "truthy (field (token a) ''admin'')"
    and "field d ''userId'' = JStr u" and "u \<noteq> []"
    and "field d ''approved'' = JBool True"
  shows "approveUser (JObj d) (Some a) now w =
     (case map_of (users w) u of
        None \<Rightarrow> (Inl (HttpsError Internal (message (not_found Users u))), w)
      | Some usr \<Rightarrow>
          let patch = [(''approved'', JBool True), (''updatedAt'', JTime now)];
              w1 = w\<lparr>users := AList.update u (assign usr patch) (users w),
                      effects := effects w @ [DocWrite Users u patch]\<rparr>;
              role = js_or (field usr ''role'') (JStr ''lecturer'');
              customClaims = [(''admin'', JBool (role = JStr ''admin'')),
                              (''moderator'', JBool (role = JStr ''moderator'')),
                              (''lecturer'', JBool (role = JStr ''lecturer'')),
                              (''approved'', JBool True)]
          in case map_of (identities w) u of
               None \<Rightarrow> (Inl (HttpsError Internal ''auth/user-not-found''), w1)
             | Some r \<Rightarrow>
                 (Inr [(''success'', JBool True),
                       (''message'', JStr ''User approved successfully'')],
                  w1\<lparr>identities :=
                        AList.update u (AList.update ''customClaims'' (JObj customClaims) r)
                          (identities w),
                      effects := effects w1 @ [SetClaims u customClaims]\<rparr>))"
  using assms
  by (simp add: approveUser_def try_catch_def await_def destructure_def updateDoc_apply
        getDocById_apply setCustomUserClaims_apply
        falsy_iff Let_def update_conv' field_assign field_with_id not_found_def
      split: option.splits)

lemma approveUser_empty_id:
  assumes "truthy (field (token a) ''admin'')" and "field d ''userId'' = JStr []"
  shows "approveUser (JObj d) (Some a) now w =
     (Inl (HttpsError Internal ''User ID and approval status are required.''), w)"
  using assms
  by (simp add: approveUser_def try_catch_def await_def destructure_def falsy_iff Let_def)

lemma updateUserRole_apply:
  assumes "truthy (field (token a) ''admin'')"
    and "field d ''userId'' = JStr u" and "u \<noteq> []"
    and "field d ''role'' = JStr r" and "r \<in> set validRoles"
  shows "updateUserRole (JObj d) (Some a) now w =
     (case map_of (users w) u of
        None \<Rightarrow> (Inl (HttpsError Internal (message (not_found Users u))), w)
      | Some usr \<Rightarrow>
          let patch = [(''role'', JStr r), (''updatedAt'', JTime now)];
              w1 = w\<lparr>users := AList.update u (assign usr patch) (users w),
                      effects := effects w @ [DocWrite Users u patch]\<rparr>;
              customClaims = role_flags (JStr r)
          in case map_of (identities w) u of
               None \<Rightarrow> (Inl (HttpsError Internal ''auth/user-not-found''), w1)
             | Some idr \<Rightarrow>
                 (Inr [(''success'', JBool True),
                       (''message'', JStr (''User role updated to '' @ r @ '' successfully''))],
                  w1\<lparr>identities :=
                        AList.update u (AList.update ''customClaims'' (JObj customClaims) idr)
                          (identities w),
                      effects := effects w1 @ [SetClaims u customClaims]\<rparr>))"
proof -
  have ne: "r \<noteq> []"
    using assms(5) by (auto simp: validRoles_def)
  have inc: "array_includes (map JStr validRoles) (JStr r)"
    using assms(5) by (simp add: array_includes_strs)
  show ?thesis
    using assms(1-4) ne inc
    by (simp add: updateUserRole_def try_catch_def await_def destructure_def updateDoc_apply
          setCustomUserClaims_apply falsy_iff Let_def not_found_def
        split: option.splits)
qed

lemma onUserUpdate_apply:
  "onUserUpdate u b a now w =
     (if strict_eq (field b ''role'') (field a ''role'') \<or> u = [] then (Inr JNull, w)
      else case map_of (identities w) u of
          None \<Rightarrow> (Inr JNull, w)
        | Some r \<Rightarrow>
            let c = role_flags (field a ''role'');
                w1 = w\<lparr>identities :=
                          AList.update u (AList.update ''customClaims'' (JObj c) r) (identities w),
                        effects := effects w @ [SetClaims u c]\<rparr>;
                patch = [(''customClaims'', JObj c), (''updatedAt'', JTime now)]
            in case map_of (users w) u of
                 None \<Rightarrow> (Inr JNull, w1)
               | Some d \<Rightarrow>
                   (Inr JNull,
                    w1\<lparr>users := AList.update u (assign d patch) (users w),
                        effects := effects w1 @ [DocWrite Users u patch]\<rparr>))"
  by (simp add: onUserUpdate_def try_catch_def await_def setCustomUserClaims_apply doc_def
        fs_update_def Let_def split: option.splits)

lemma onUserCreate_apply:
  "onUserCreate u ud now w =
     (if u = [] then (Inr JNull, w)
      else if field ud ''role'' = JStr ''admin''
      then (case map_of (identities w) u of
          None \<Rightarrow> (Inr JNull, w)
        | Some r \<Rightarrow>
            let c = [(''admin'', JBool True), (''moderator'', JBool False),
                     (''lecturer'', JBool False), (''approved'', JBool True)];
                w1 = w\<lparr>identities :=
                          AList.update u (AList.update ''customClaims'' (JObj c) r) (identities w),
                        effects := effects w @ [SetClaims u c]\<rparr>;
                patch = [(''approved'', JBool True), (''customClaims'', JObj c),
                         (''updatedAt'', JTime now)]
            in case map_of (users w) u of
                 None \<Rightarrow> (Inr JNull, w1)
               | Some d \<Rightarrow>
                   (Inr JNull,
                    w1\<lparr>users := AList.update u (assign d patch) (users w),
                        effects := effects w1 @ [DocWrite Users u patch]\<rparr>))
      else (let patch = [(''approved'', JBool False), (''customClaims'', JNull),
                         (''updatedAt'', JTime now)]
            in case map_of (users w) u of
                 None \<Rightarrow> (Inr JNull, w)
               | Some d \<Rightarrow>
                   (Inr JNull,
                    w\<lparr>users := AList.update u (assign d patch) (users w),
                       effects := effects w @ [DocWrite Users u patch]\<rparr>)))"
  by (simp add: onUserCreate_def try_catch_def await_def setCustomUserClaims_apply doc_def
        fs_update_def Let_def role_flags_eq split: option.splits)

lemma createFirstAdmin_apply:
  assumes "truthy (field d ''email'')" and "truthy (field d ''password'')"
    and "truthy (field d ''displayName'')"
  shows "createFirstAdmin (JObj d) now new_uid w =
     (let customClaims = [(''admin'', JBool True), (''moderator'', JBool False),
                          (''lecturer'', JBool False), (''approved'', JBool True)];
          properties = [(''email'', field d ''email''), (''password'', field d ''password''),
                        (''displayName'', field d ''displayName''),
                        (''emailVerified'', JBool True)];
          userDoc = [(''displayName'', field d ''displayName''),
                     (''email'', field d ''email''),
                     (''role'', JStr ''admin''),
                     (''approved'', JBool True),
                     (''active'', JBool True),
                     (''customClaims'', JObj customClaims),
                     (''createdAt'', JTime now),
                     (''updatedAt'', JTime now)]
      in if list_ex (\<lambda>(i, usr). map_of usr ''role'' = Some (JStr ''admin'')) (users w)
         then (Inl (HttpsError Internal
                      ''An admin user already exists. Cannot create the first admin.''), w)
         else if list_ex (\<lambda>(i, r). field r ''email'' = field d ''email'') (identities w)
         then (Inl (HttpsError Internal ''auth/email-already-exists''), w)
         else case map_of (identities w) new_uid of
             Some r \<Rightarrow> (Inl (HttpsError Internal ''auth/uid-already-exists''), w)
           | None \<Rightarrow>
               if new_uid = []
               then (Inl (HttpsError Internal ''auth/invalid-uid''),
                     w\<lparr>identities := AList.update new_uid properties (identities w)\<rparr>)
               else (Inr [(''success'', JBool True),
                          (''message'', JStr ''First admin user created successfully''),
                          (''userId'', JStr new_uid)],
                     w\<lparr>identities :=
                          AList.update new_uid
                            (AList.update ''customClaims'' (JObj customClaims) properties)
                            (AList.update new_uid properties (identities w)),
                        users := AList.update new_uid userDoc (users w),
                        effects := effects w @ [SetClaims new_uid customClaims,
                                                DocWrite Users new_uid userDoc]\<rparr>))"
proof -
  have q: "(length (filter (\<lambda>(i, d). list_all (matches d) [(''role'', JStr ''admin'')]) (users w)) > 0)
      = list_ex (\<lambda>(i, usr). map_of usr ''role'' = Some (JStr ''admin'')) (users w)"
    by (induction "users w") (auto simp: matches_def list_ex_iff filter_empty_conv)
  show ?thesis
    using assms q
    by (simp add: createFirstAdmin_def try_catch_def await_def destructure_def queryDocs_apply
          createUser_def setCustomUserClaims_apply doc_apply fs_set_def Let_def update_conv'
          falsy_iff field_Cons
        split: option.splits)
qed

subsection \<open>Runs on the example state\<close>

lemma example_defs:
  "user_doc name r a =
     [(''displayName'', JStr name), (''email'', JStr (name @ ''@example.org'')),
      (''role'', JStr r), (''approved'', JBool a), (''active'', JBool True),
      (''createdAt'', JTime 1), (''updatedAt'', JTime 1)]"
  "root_caller = Some \<lparr>uid = ''root'', token = approved_claims ''admin''\<rparr>"
  "caller i claims = Some \<lparr>uid = i, token = claims\<rparr>"
  by (simp_all add: user_doc_def root_caller_def caller_def)

lemma register_admin:
  "createUserRecord (JStr ''u9'')
      [(''displayName'', JStr ''ada''), (''email'', JStr ''ada@example.org''),
       (''role'', JStr ''admin'')] 7 ''auto'' campus
   = (Inr ''u9'',
      campus\<lparr>users := users campus @
                 [(''u9'', [(''displayName'', JStr ''ada''),
                            (''email'', JStr ''ada@example.org''),
                            (''role'', JStr ''admin''),
                            (''approved'', JBool True),
                            (''active'', JBool True),
                            (''createdAt'', JTime 7),
                            (''updatedAt'', JTime 7)])],
             effects := [DocWrite Users ''u9''
                           [(''displayName'', JStr ''ada''),
                            (''email'', JStr ''ada@example.org''),
                            (''role'', JStr ''admin''),
                            (''approved'', JBool True),
                            (''active'', JBool True),
                            (''createdAt'', JTime 7),
                            (''updatedAt'', JTime 7)]]\<rparr>)"
  by (simp add: createUserRecord_def createDoc_apply Let_def field_Cons js_or_def campus_def)

lemma create_root_run:
  "onUserCreate ''root'' (user_doc ''root'' ''admin'' True) 3 campus
   = (Inr JNull,
      campus\<lparr>identities :=
               AList.update ''root''
                 [(''email'', JStr ''root@example.org''),
                  (''customClaims'', JObj (approved_claims ''admin''))]
                 (identities campus),
             users :=
               AList.update ''root''
                 [(''displayName'', JStr ''root''),
                  (''email'', JStr ''root@example.org''),
                  (''role'', JStr ''admin''),
                  (''approved'', JBool True),
                  (''active'', JBool True),
                  (''createdAt'', JTime 1),
                  (''updatedAt'', JTime 3),
                  (''customClaims'', JObj (approved_claims ''admin''))]
                 (users campus),
             effects :=
               [SetClaims ''root'' (approved_claims ''admin''),
                DocWrite Users ''root''
                  [(''approved'', JBool True),
                   (''customClaims'', JObj (approved_claims ''admin'')),
                   (''updatedAt'', JTime 3)]]\<rparr>)"
  unfolding onUserCreate_apply
  by (simp add: campus_def user_doc_def approved_claims_def field_Cons Let_def assign_def)

lemma first_admin_run:
  "createFirstAdmin
     (JObj [(''email'', JStr ''ada@example.org''), (''password'', JStr ''secret1''),
            (''displayName'', JStr ''ada'')]) 7 ''u9'' empty_world
   = (Inr [(''success'', JBool True),
           (''message'', JStr ''First admin user created successfully''),
           (''userId'', JStr ''u9'')],
      \<lparr>users = [(''u9'', [(''displayName'', JStr ''ada''),
                         (''email'', JStr ''ada@example.org''),
                         (''role'', JStr ''admin''),
                         (''approved'', JBool True),
                         (''active'', JBool True),
                         (''customClaims'', JObj (approved_claims ''admin'')),
                         (''createdAt'', JTime 7),
                         (''updatedAt'', JTime 7)])],
        assessments = [],
        identities = [(''u9'', [(''email'', JStr ''ada@example.org''),
                               (''password'', JStr ''secret1''),
                               (''displayName'', JStr ''ada''),
                               (''emailVerified'', JBool True),
                               (''customClaims'', JObj (approved_claims ''admin''))])],
        effects = [SetClaims ''u9'' (approved_claims ''admin''),
                   DocWrite Users ''u9''
                     [(''displayName'', JStr ''ada''),
                      (''email'', JStr ''ada@example.org''),
                      (''role'', JStr ''admin''),
                      (''approved'', JBool True),
                      (''active'', JBool True),
                      (''customClaims'', JObj (approved_claims ''admin'')),
                      (''createdAt'', JTime 7),
                      (''updatedAt'', JTime 7)]]\<rparr>)"
proof -
  let ?d = "[(''email'', JStr ''ada@example.org''), (''password'', JStr ''secret1''),
             (''displayName'', JStr ''ada'')]"
  have t: "truthy (field ?d ''email'')" "truthy (field ?d ''password'')"
    "truthy (field ?d ''displayName'')"
    by (simp_all add: field_Cons)
  show ?thesis
    unfolding createFirstAdmin_apply [OF t]
    by (simp add: empty_world_def approved_claims_def field_Cons Let_def)
qed

lemma make_u2_admin:
  "updateUserRole (JObj [(''userId'', JStr ''u2''), (''role'', JStr ''admin'')]) root_caller 7 campus
   = (Inr [(''success'', JBool True),
           (''message'', JStr ''User role updated to admin successfully'')],
      campus\<lparr>users := AList.update ''u2''
                 [(''displayName'', JStr ''max''),
                  (''email'', JStr ''max@example.org''),
                  (''role'', JStr ''admin''),
                  (''approved'', JBool False),
                  (''active'', JBool True),
                  (''createdAt'', JTime 1),
                  (''updatedAt'', JTime 7)] (users campus),
             effects := [DocWrite Users ''u2'' [(''role'', JStr ''admin''), (''updatedAt'', JTime 7)],
                         SetClaims ''u2'' [(''admin'', JBool True), (''moderator'', JBool False),
                                           (''lecturer'', JBool False)]],
             identities := AList.update ''u2''
                 [(''email'', JStr ''max@example.org''),
                  (''customClaims'', JObj [(''admin'', JBool True), (''moderator'', JBool False),
                                           (''lecturer'', JBool False)])] (identities campus)\<rparr>)"
proof -
  let ?a = "\<lparr>uid = ''root'', token = approved_claims ''admin''\<rparr>"
  let ?d = "[(''userId'', JStr ''u2''), (''role'', JStr ''admin'')]"
  have h1: "truthy (field (token ?a) ''admin'')"
    by (simp add: field_def approved_claims_def)
  have h2: "field ?d ''userId'' = JStr ''u2''" and h3: "''u2'' \<noteq> []"
    and h4: "field ?d ''role'' = JStr ''admin''" and h5: "''admin'' \<in> set validRoles"
    by (simp_all add: field_def validRoles_def)
  show ?thesis
    unfolding example_defs updateUserRole_apply [OF h1 h2 h3 h4 h5]
    by (simp add: campus_def user_doc_def assign_def role_flags_eq Let_def)
qed

lemma approve_u2_apply:
  "approveUser (JObj [(''userId'', JStr ''u2''), (''approved'', JBool True)]) root_caller now w =
     (case map_of (users w) ''u2'' of
        None \<Rightarrow> (Inl (HttpsError Internal (message (not_found Users ''u2''))), w)
      | Some usr \<Rightarrow>
          let patch = [(''approved'', JBool True), (''updatedAt'', JTime now)];
              w1 = w\<lparr>users := AList.update ''u2'' (assign usr patch) (users w),
                      effects := effects w @ [DocWrite Users ''u2'' patch]\<rparr>;
              role = js_or (field usr ''role'') (JStr ''lecturer'');
              customClaims = [(''admin'', JBool (role = JStr ''admin'')),
                              (''moderator'', JBool (role = JStr ''moderator'')),
                              (''lecturer'', JBool (role = JStr ''lecturer'')),
                              (''approved'', JBool True)]
          in case map_of (identities w) ''u2'' of
               None \<Rightarrow> (Inl (HttpsError Internal ''auth/user-not-found''), w1)
             | Some r \<Rightarrow>
                 (Inr [(''success'', JBool True),
                       (''message'', JStr ''User approved successfully'')],
                  w1\<lparr>identities :=
                        AList.update ''u2'' (AList.update ''customClaims'' (JObj customClaims) r)
                          (identities w),
                      effects := effects w1 @ [SetClaims ''u2'' customClaims]\<rparr>))"
  unfolding example_defs
  by (rule approveUser_apply) (simp_all add: field_def approved_claims_def)

lemma approve_u2_run:
  "approveUser (JObj [(''userId'', JStr ''u2''), (''approved'', JBool True)]) root_caller 7 campus
   = (Inr [(''success'', JBool True), (''message'', JStr ''User approved successfully'')],
      campus\<lparr>users := AList.update ''u2''
                 [(''displayName'', JStr ''max''),
                  (''email'', JStr ''max@example.org''),
                  (''role'', JStr ''lecturer''),
                  (''approved'', JBool True),
                  (''active'', JBool True),
                  (''createdAt'', JTime 1),
                  (''updatedAt'', JTime 7)] (users campus),
             identities := AList.update ''u2''
                 [(''email'', JStr ''max@example.org''),
                  (''customClaims'', JObj (approved_claims ''lecturer''))] (identities campus),
             effects := [DocWrite Users ''u2''
                           [(''approved'', JBool True), (''updatedAt'', JTime 7)],
                         SetClaims ''u2'' (approved_claims ''lecturer'')]\<rparr>)"
  unfolding approve_u2_apply
  by (simp add: campus_def user_doc_def approved_claims_def field_Cons Let_def assign_def js_or_def)

lemma promote_attached:
  "attached campus_promoted
     (snd (onUserUpdate ''u1'' (user_doc ''lee'' ''lecturer'' True)
             (user_doc ''lee'' ''moderator'' True) 8 campus_promoted))
   = [(''u1'', [(''admin'', JBool False), (''moderator'', JBool True),
                (''lecturer'', JBool False)])]"
  unfolding onUserUpdate_apply
  by (simp add: campus_promoted_def campus_def example_defs field_def role_flags_eq Let_def
        attached_def new_effects_def)

lemma make_u2_admin_attached:
  "attached campus
     (snd (updateUserRole (JObj [(''userId'', JStr ''u2''), (''role'', JStr ''admin'')])
             root_caller 7 campus))
   = [(''u2'', [(''admin'', JBool True), (''moderator'', JBool False),
                (''lecturer'', JBool False)])]"
  unfolding make_u2_admin
  by (simp add: attached_def new_effects_def campus_def)

lemma approve_u2_attached:
  "attached campus
     (snd (approveUser (JObj [(''userId'', JStr ''u2''), (''approved'', JBool True)])
             root_caller 7 campus))
   = [(''u2'', approved_claims ''lecturer'')]"
  unfolding approve_u2_run
  by (simp add: attached_def new_effects_def campus_def)

lemma create_root_attached:
  "attached campus (snd (onUserCreate ''root'' (user_doc ''root'' ''admin'' True) 3 campus))
   = [(''root'', approved_claims ''admin'')]"
  unfolding create_root_run
  by (simp add: attached_def new_effects_def campus_def)

lemma first_admin_attached:
  "attached empty_world
     (snd (createFirstAdmin
        (JObj [(''email'', JStr ''ada@example.org''), (''password'', JStr ''secret1''),
               (''displayName'', JStr ''ada'')]) 7 ''u9'' empty_world))
   = [(''u9'', approved_claims ''admin'')]"
  unfolding first_admin_run
  by (simp add: attached_def new_effects_def empty_world_def)

section \<open>Administrators and the approved field\<close>

lemma createUserRecord_invariant:
  assumes "createUserRecord userId userData now auto_id w = (Inr s, w')"
  shows "\<exists>d. map_of (users w') s = Some d \<and> admin_approved d
           \<and> field d ''role'' = js_or (field userData ''role'') (JStr ''lecturer'')
           \<and> field d ''approved'' = JBool (field d ''role'' = JStr ''admin'')"
  using assms
  by (auto simp: createUserRecord_def createDoc_apply Let_def update_conv' field_Cons
        admin_approved_def split: if_splits option.splits)

lemma onUserCreate_invariant:
  assumes "map_of (users w) u = Some d" and "field d ''role'' = field ud ''role''"
    and "u \<noteq> []" and "map_of (identities w) u = Some r"
  shows "\<exists>d'. map_of (users (snd (onUserCreate u ud now w))) u = Some d' \<and> admin_approved d'
           \<and> field d' ''role'' = field d ''role''
           \<and> field d' ''approved'' = JBool (field d ''role'' = JStr ''admin'')"
  using assms
  by (auto simp: onUserCreate_apply Let_def update_conv' field_assign admin_approved_def)

lemma createFirstAdmin_success:
  assumes "createFirstAdmin data now new_uid w = (Inr res, w')"
  shows "users w' =
           AList.update new_uid
             [(''displayName'', field (props data) ''displayName''),
              (''email'', field (props data) ''email''),
              (''role'', JStr ''admin''),
              (''approved'', JBool True),
              (''active'', JBool True),
              (''customClaims'', JObj [(''admin'', JBool True), (''moderator'', JBool False),
                                       (''lecturer'', JBool False), (''approved'', JBool True)]),
              (''createdAt'', JTime now),
              (''updatedAt'', JTime now)]
             (users w)"
  using assms
  by (auto simp: createFirstAdmin_def try_catch_def await_def destructure_apply queryDocs_apply
        createUser_def setCustomUserClaims_apply doc_apply fs_set_def Let_def update_conv'
      split: option.splits if_splits)

lemma createFirstAdmin_invariant:
  assumes "createFirstAdmin data now new_uid w = (Inr res, w')"
  shows "\<exists>d. map_of (users w') new_uid = Some d \<and> admin_approved d
           \<and> field d ''role'' = JStr ''admin'' \<and> field d ''approved'' = JBool True"
  by (simp add: createFirstAdmin_success [OF assms] update_conv' admin_approved_def field_Cons)

lemma updateUserRole_keeps_approved:
  assumes "map_of (users w) s = Some d"
    and "map_of (users (snd (updateUserRole data ctx now w))) s = Some d'"
  shows "field d' ''approved'' = field d ''approved''"
  using assms
  by (auto simp: updateUserRole_def try_catch_def await_def destructure_apply updateDoc_key
        setCustomUserClaims_key array_includes_strs Let_def update_conv' field_assign
      split: option.splits if_splits)

lemma approveUser_keeps_role:
  assumes "map_of (users w) s = Some d"
    and "map_of (users (snd (approveUser data ctx now w))) s = Some d'"
  shows "field d' ''role'' = field d ''role''"
  using assms
  by (auto simp: approveUser_def try_catch_def await_def destructure_apply updateDoc_key
        getDocById_key setCustomUserClaims_key Let_def update_conv' field_assign field_with_id
      split: option.splits if_splits)

lemma admin_passes_checks:
  assumes "map_of (users w) u = Some d" and "u \<noteq> []" and "field d ''role'' = JStr ''admin''"
  shows "isUserApproved (JStr u) w = (Inr True, w)"
    and "verifyUserRole (JStr u) (JStr ''admin'') w = (Inr True, w)"
  using assms
  by (simp_all add: isUserApproved_def verifyUserRole_def try_catch_def await_def
        getDocById_apply field_with_id array_includes_single Let_def)

text \<open>
  Claim C1, as the code has it. The invariant, an administrator's document has
  \<open>approved = true\<close>, holds for the document that user registration
  (\<open>createUserRecord\<close>) and \<open>createFirstAdmin\<close> write, and for a registered user's
  document after the create trigger has run on it. \<open>updateUserRole\<close> never changes the
  \<open>approved\<close> field of a user document and \<open>approveUser\<close> never changes the \<open>role\<close> field,
  so neither restores the invariant; the approval checks make up for it: they pass for
  every stored administrator, whatever the \<open>approved\<close> field holds.
\<close>

theorem admin_approved_where_created:
  "(createUserRecord userId userData now auto_id w = (Inr s, w') \<longrightarrow>
      (\<exists>d. map_of (users w') s = Some d \<and> admin_approved d))
   \<and> (map_of (users w) u = Some d0 \<and> field d0 ''role'' = field snapshot ''role''
        \<and> u \<noteq> [] \<and> map_of (identities w) u = Some r \<longrightarrow>
      (\<exists>d. map_of (users (snd (onUserCreate u snapshot now w))) u = Some d \<and> admin_approved d))
   \<and> (createFirstAdmin data now new_uid w = (Inr res, w'') \<longrightarrow>
      (\<exists>d. map_of (users w'') new_uid = Some d \<and> admin_approved d
           \<and> field d ''role'' = JStr ''admin''))
   \<and> (map_of (users w) u = Some d0
        \<and> map_of (users (snd (updateUserRole data ctx now w))) u = Some d1 \<longrightarrow>
      field d1 ''approved'' = field d0 ''approved'')
   \<and> (map_of (users w) u = Some d0
        \<and> map_of (users (snd (approveUser data ctx now w))) u = Some d1 \<longrightarrow>
      field d1 ''role'' = field d0 ''role'')
   \<and> (map_of (users w) u = Some d0 \<and> u \<noteq> [] \<and> field d0 ''role'' = JStr ''admin'' \<longrightarrow>
      isUserApproved (JStr u) w = (Inr True, w)
      \<and> verifyUserRole (JStr u) (JStr ''admin'') w = (Inr True, w))"
proof (intro conjI impI)
  assume "createUserRecord userId userData now auto_id w = (Inr s, w')"
  from createUserRecord_invariant [OF this]
  show "\<exists>d. map_of (users w') s = Some d \<and> admin_approved d" by blast
next
  assume "map_of (users w) u = Some d0 \<and> field d0 ''role'' = field snapshot ''role''
        \<and> u \<noteq> [] \<and> map_of (identities w) u = Some r"
  then have "map_of (users w) u = Some d0" "field d0 ''role'' = field snapshot ''role''"
    "u \<noteq> []" "map_of (identities w) u = Some r" by simp_all
  from onUserCreate_invariant [OF this]
  show "\<exists>d. map_of (users (snd (onUserCreate u snapshot now w))) u = Some d \<and> admin_approved d"
    by blast
next
  assume "createFirstAdmin data now new_uid w = (Inr res, w'')"
  from createFirstAdmin_invariant [OF this]
  show "\<exists>d. map_of (users w'') new_uid = Some d \<and> admin_approved d
           \<and> field d ''role'' = JStr ''admin''" by blast
next
  assume "map_of (users w) u = Some d0
        \<and> map_of (users (snd (updateUserRole data ctx now w))) u = Some d1"
  then show "field d1 ''approved'' = field d0 ''approved''"
    using updateUserRole_keeps_approved by blast
next
  assume "map_of (users w) u = Some d0
        \<and> map_of (users (snd (approveUser data ctx now w))) u = Some d1"
  then show "field d1 ''role'' = field d0 ''role''"
    using approveUser_keeps_role by blast
next
  assume a: "map_of (users w) u = Some d0 \<and> u \<noteq> [] \<and> field d0 ''role'' = JStr ''admin''"
  then show "isUserApproved (JStr u) w = (Inr True, w)"
    using admin_passes_checks(1) by blast
  from a show "verifyUserRole (JStr u) (JStr ''admin'') w = (Inr True, w)"
    using admin_passes_checks(2) by blast
qed

theorem admin_approved_where_created_witness:
  "fst (createUserRecord (JStr ''u9'')
      [(''displayName'', JStr ''ada''), (''email'', JStr ''ada@example.org''),
       (''role'', JStr ''admin'')] 7 ''auto'' campus) = Inr ''u9''
   \<and> (\<exists>d. map_of (users (snd (createUserRecord (JStr ''u9'')
      [(''displayName'', JStr ''ada''), (''email'', JStr ''ada@example.org''),
       (''role'', JStr ''admin'')] 7 ''auto'' campus))) ''u9'' = Some d
         \<and> admin_approved d \<and> field d ''role'' = JStr ''admin'')
   \<and> (\<exists>d. map_of (users (snd (onUserCreate ''root'' (user_doc ''root'' ''admin'' True) 3
                                 campus))) ''root'' = Some d
         \<and> admin_approved d \<and> field d ''role'' = JStr ''admin'')
   \<and> (\<exists>d. map_of (users (snd (createFirstAdmin
          (JObj [(''email'', JStr ''ada@example.org''), (''password'', JStr ''secret1''),
                 (''displayName'', JStr ''ada'')]) 7 ''u9'' empty_world))) ''u9'' = Some d
         \<and> admin_approved d \<and> field d ''role'' = JStr ''admin'')
   \<and> field (the (map_of (users campus) ''u2'')) ''approved'' = JBool False
   \<and> field (the (map_of (users (snd (updateUserRole
          (JObj [(''userId'', JStr ''u2''), (''role'', JStr ''admin'')]) root_caller 7 campus)))
        ''u2'')) ''approved'' = JBool False
   \<and> field (the (map_of (users (snd (approveUser
          (JObj [(''userId'', JStr ''u2''), (''approved'', JBool True)]) root_caller 7 campus)))
        ''u2'')) ''role'' = JStr ''lecturer''
   \<and> map_of (users campus) ''root'' = Some (user_doc ''root'' ''admin'' True)
   \<and> isUserApproved (JStr ''root'') campus = (Inr True, campus)
   \<and> verifyUserRole (JStr ''root'') (JStr ''admin'') campus = (Inr True, campus)"
proof -
  let ?reg = "createUserRecord (JStr ''u9'')
      [(''displayName'', JStr ''ada''), (''email'', JStr ''ada@example.org''),
       (''role'', JStr ''admin'')] 7 ''auto'' campus"
  let ?ada = "[(''email'', JStr ''ada@example.org''), (''password'', JStr ''secret1''),
               (''displayName'', JStr ''ada'')]"
  let ?first = "createFirstAdmin (JObj ?ada) 7 ''u9'' empty_world"
  let ?role = "updateUserRole (JObj [(''userId'', JStr ''u2''), (''role'', JStr ''admin'')])
                 root_caller 7 campus"
  let ?appr = "approveUser (JObj [(''userId'', JStr ''u2''), (''approved'', JBool True)])
                 root_caller 7 campus"
  let ?max = "user_doc ''max'' ''lecturer'' False"
  let ?root = "user_doc ''root'' ''admin'' True"
  have u2: "map_of (users campus) ''u2'' = Some ?max"
    and root: "map_of (users campus) ''root'' = Some ?root"
    and root_id: "map_of (identities campus) ''root''
      = Some [(''email'', JStr ''root@example.org''),
              (''customClaims'', JObj (approved_claims ''admin''))]"
    by (simp_all add: campus_def)
  have root_role: "field ?root ''role'' = JStr ''admin''"
    and max_role: "field ?max ''role'' = JStr ''lecturer''"
    and max_appr: "field ?max ''approved'' = JBool False"
    by (simp_all add: user_doc_def field_Cons)
  \<comment> \<open>registration\<close>
  have reg: "?reg = (Inr ''u9'', snd ?reg)"
    by (simp add: register_admin)
  have reg_role: "field (the (map_of (users (snd ?reg)) ''u9'')) ''role'' = JStr ''admin''"
    unfolding register_admin by (simp add: campus_def field_Cons)
  from admin_approved_where_created [where w = campus and userId = "JStr ''u9''"
      and userData = "[(''displayName'', JStr ''ada''), (''email'', JStr ''ada@example.org''),
                       (''role'', JStr ''admin'')]"
      and now = 7 and auto_id = "''auto''" and s = "''u9''" and w' = "snd ?reg"] reg
  obtain d1 where d1: "map_of (users (snd ?reg)) ''u9'' = Some d1" "admin_approved d1"
    by blast
  \<comment> \<open>the create trigger\<close>
  have trig_role: "field (the (map_of (users (snd (onUserCreate ''root'' ?root 3 campus)))
                      ''root'')) ''role'' = JStr ''admin''"
    unfolding create_root_run by (simp add: update_conv' field_Cons)
  from admin_approved_where_created [where w = campus and u = "''root''" and ?d0.0 = ?root
      and snapshot = ?root and now = 3
      and r = "[(''email'', JStr ''root@example.org''),
                (''customClaims'', JObj (approved_claims ''admin''))]"] root root_id
  obtain d2 where d2: "map_of (users (snd (onUserCreate ''root'' ?root 3 campus))) ''root''
      = Some d2" "admin_approved d2"
    by blast
  \<comment> \<open>the first administrator\<close>
  have first: "?first = (Inr [(''success'', JBool True),
           (''message'', JStr ''First admin user created successfully''),
           (''userId'', JStr ''u9'')], snd ?first)"
    by (simp add: first_admin_run)
  from admin_approved_where_created [where w = empty_world and data = "JObj ?ada" and now = 7
      and new_uid = "''u9''" and w'' = "snd ?first"] first
  obtain d3 where d3: "map_of (users (snd ?first)) ''u9'' = Some d3" "admin_approved d3"
    "field d3 ''role'' = JStr ''admin''"
    by blast
  \<comment> \<open>the role change and the approval\<close>
  have after_role: "map_of (users (snd ?role)) ''u2''
      = Some (the (map_of (users (snd ?role)) ''u2''))"
    unfolding make_u2_admin by (simp add: update_conv')
  have after_appr: "map_of (users (snd ?appr)) ''u2''
      = Some (the (map_of (users (snd ?appr)) ''u2''))"
    unfolding approve_u2_run by (simp add: update_conv')
  note on_campus = admin_approved_where_created [where w = campus and u = "''u2''"
      and ?d0.0 = ?max and ctx = root_caller and now = 7]
  from on_campus [where data = "JObj [(''userId'', JStr ''u2''), (''role'', JStr ''admin'')]"
      and ?d1.0 = "the (map_of (users (snd ?role)) ''u2'')"] u2 after_role
  have keep_appr: "field (the (map_of (users (snd ?role)) ''u2'')) ''approved''
      = field ?max ''approved''"
    by blast
  from on_campus [where data = "JObj [(''userId'', JStr ''u2''), (''approved'', JBool True)]"
      and ?d1.0 = "the (map_of (users (snd ?appr)) ''u2'')"] u2 after_appr
  have keep_role: "field (the (map_of (users (snd ?appr)) ''u2'')) ''role''
      = field ?max ''role''"
    by blast
  \<comment> \<open>the checks\<close>
  from admin_approved_where_created [where w = campus and u = "''root''" and ?d0.0 = ?root]
    root root_role
  have checks: "isUserApproved (JStr ''root'') campus = (Inr True, campus)"
    "verifyUserRole (JStr ''root'') (JStr ''admin'') campus = (Inr True, campus)"
    by simp_all
  have "fst ?reg = Inr ''u9''"
    by (simp add: register_admin)
  then show ?thesis
    using d1 reg_role d2 trig_role d3 keep_appr keep_role u2 root checks max_role max_appr
    by simp
qed

text \<open>
  Claim C1 as stated fails on \<open>updateUserRole\<close>: an administrator gives the role
  \<open>admin\<close> to \<open>u2\<close>, a lecturer waiting for approval. The call succeeds and the document
  of \<open>u2\<close> has role \<open>admin\<close> and \<open>approved = false\<close>; it still has after the update trigger
  has run for this change.
\<close>

theorem updateUserRole_admin_not_approved:
  "fst (updateUserRole (JObj [(''userId'', JStr ''u2''), (''role'', JStr ''admin'')])
          root_caller 7 campus)
     = Inr [(''success'', JBool True),
            (''message'', JStr ''User role updated to admin successfully'')]
   \<and> map_of (users (snd (updateUserRole
          (JObj [(''userId'', JStr ''u2''), (''role'', JStr ''admin'')]) root_caller 7 campus)))
        ''u2''
     = Some [(''displayName'', JStr ''max''),
             (''email'', JStr ''max@example.org''),
             (''role'', JStr ''admin''),
             (''approved'', JBool False),
             (''active'', JBool True),
             (''createdAt'', JTime 1),
             (''updatedAt'', JTime 7)]
   \<and> \<not> admin_approved [(''displayName'', JStr ''max''),
             (''email'', JStr ''max@example.org''),
             (''role'', JStr ''admin''),
             (''approved'', JBool False),
             (''active'', JBool True),
             (''createdAt'', JTime 1),
             (''updatedAt'', JTime 7)]
   \<and> \<not> admin_approved (the (map_of (users (snd (onUserUpdate ''u2''
          (user_doc ''max'' ''lecturer'' False)
          [(''displayName'', JStr ''max''),
           (''email'', JStr ''max@example.org''),
           (''role'', JStr ''admin''),
           (''approved'', JBool False),
           (''active'', JBool True),
           (''createdAt'', JTime 1),
           (''updatedAt'', JTime 7)] 8
          (snd (updateUserRole
             (JObj [(''userId'', JStr ''u2''), (''role'', JStr ''admin'')])
             root_caller 7 campus))))) ''u2''))"
  unfolding make_u2_admin onUserUpdate_apply
  by (simp add: campus_def user_doc_def update_conv' admin_approved_def field_Cons
        strict_eq_def Let_def role_flags_eq assign_def approved_claims_def)

section \<open>The role and approval check\<close>

text \<open>
  Claim C2. \<open>verifyUserRole(userId, requiredRoles)\<close>, called with a list of role names or
  with a single role name, never throws and never changes the state; it returns true
  exactly when \<open>userId\<close> is the identifier of a stored user document whose role is one of
  the required roles and whose \<open>approved\<close> field is \<open>true\<close> or whose role is
  \<open>admin\<close>. In particular it returns false when the lookup fails, as for a user that
  does not exist.
\<close>

theorem verifyUserRole_iff:
  "verifyUserRole userId (JArr (map JStr roles)) w =
     (Inr (\<exists>u d. userId = JStr u \<and> u \<noteq> [] \<and> map_of (users w) u = Some d
             \<and> field d ''role'' \<in> JStr ` set roles
             \<and> (field d ''approved'' = JBool True \<or> field d ''role'' = JStr ''admin'')), w)
   \<and> verifyUserRole userId (JStr r) w =
     (Inr (\<exists>u d. userId = JStr u \<and> u \<noteq> [] \<and> map_of (users w) u = Some d
             \<and> field d ''role'' = JStr r
             \<and> (field d ''approved'' = JBool True \<or> field d ''role'' = JStr ''admin'')), w)"
  by (auto simp: verifyUserRole_def try_catch_def await_def getDocById_apply field_with_id
        array_includes_strs array_includes_single Let_def
      split: jsval.splits option.splits)

theorem verifyUserRole_iff_witness:
  "verifyUserRole (JStr ''u1'') (JArr (map JStr [''lecturer'', ''admin''])) campus
     = (Inr True, campus)
   \<and> verifyUserRole (JStr ''u2'') (JArr (map JStr [''lecturer'', ''admin''])) campus
     = (Inr False, campus)
   \<and> verifyUserRole (JStr ''root'') (JStr ''admin'') campus = (Inr True, campus)
   \<and> verifyUserRole (JStr ''nobody'') (JStr ''lecturer'') campus = (Inr False, campus)"
  using verifyUserRole_iff [of "JStr ''u1''" "[''lecturer'', ''admin'']" campus "''x''"]
    verifyUserRole_iff [of "JStr ''u2''" "[''lecturer'', ''admin'']" campus "''x''"]
    verifyUserRole_iff [of "JStr ''root''" "[]" campus "''admin''"]
    verifyUserRole_iff [of "JStr ''nobody''" "[]" campus "''lecturer''"]
  by (simp add: campus_def example_defs field_def)

section \<open>The claims records that are attached\<close>

lemma onUserUpdate_attached:
  "(s, c) \<in> set (attached w (snd (onUserUpdate u b a now w)))
   \<Longrightarrow> s = u \<and> c = role_flags (field a ''role'')"
  by (auto simp: onUserUpdate_apply Let_def split: if_splits option.splits)

lemma updateUserRole_attached:
  "(s, c) \<in> set (attached w (snd (updateUserRole data ctx now w)))
   \<Longrightarrow> field (props data) ''userId'' = JStr s
       \<and> field (props data) ''role'' \<in> JStr ` set validRoles
       \<and> c = role_flags (field (props data) ''role'')"
  by (auto simp: updateUserRole_def try_catch_def await_def destructure_apply updateDoc_key
        setCustomUserClaims_key array_includes_strs Let_def
      split: option.splits if_splits)

lemma approveUser_attached:
  "(s, c) \<in> set (attached w (snd (approveUser data ctx now w)))
   \<Longrightarrow> field (props data) ''userId'' = JStr s
       \<and> truthy (field (props data) ''approved'')
       \<and> (\<exists>usr. map_of (users w) s = Some usr
             \<and> c = [(''admin'', JBool (js_or (field usr ''role'') (JStr ''lecturer'') = JStr ''admin'')),
                    (''moderator'', JBool (js_or (field usr ''role'') (JStr ''lecturer'') = JStr ''moderator'')),
                    (''lecturer'', JBool (js_or (field usr ''role'') (JStr ''lecturer'') = JStr ''lecturer'')),
                    (''approved'', JBool True)])"
  by (auto simp: approveUser_def try_catch_def await_def destructure_apply updateDoc_key
        getDocById_key setCustomUserClaims_key
        Let_def update_conv' field_assign field_with_id
      split: option.splits if_splits)

lemma onUserCreate_attached:
  "(s, c) \<in> set (attached w (snd (onUserCreate u ud now w)))
   \<Longrightarrow> s = u \<and> field ud ''role'' = JStr ''admin''
       \<and> c = [(''admin'', JBool True), (''moderator'', JBool False),
               (''lecturer'', JBool False), (''approved'', JBool True)]"
  by (auto simp: onUserCreate_apply Let_def split: if_splits option.splits)

lemma createFirstAdmin_attached:
  "(s, c) \<in> set (attached w (snd (createFirstAdmin data now new_uid w)))
   \<Longrightarrow> s = new_uid
       \<and> c = [(''admin'', JBool True), (''moderator'', JBool False),
               (''lecturer'', JBool False), (''approved'', JBool True)]"
  by (auto simp: createFirstAdmin_def try_catch_def await_def destructure_apply queryDocs_apply
        createUser_def setCustomUserClaims_apply doc_apply fs_set_def Let_def update_conv'
        attached_def new_effects_def
      split: option.splits if_splits)

lemma role_flags_match:
  "flags_match (role_flags role) role \<and> map_of (role_flags role) ''approved'' = None"
  by (auto simp: flags_match_def role_flags_eq validRoles_def field_def)

lemma literal_flags_match:
  "flags_match [(''admin'', JBool (role = JStr ''admin'')),
                (''moderator'', JBool (role = JStr ''moderator'')),
                (''lecturer'', JBool (role = JStr ''lecturer'')),
                (''approved'', JBool True)] role"
  by (auto simp: flags_match_def validRoles_def field_def)

lemma admin_flags_match:
  "flags_match [(''admin'', JBool True), (''moderator'', JBool False),
                (''lecturer'', JBool False), (''approved'', JBool True)] (JStr ''admin'')"
  by (auto simp: flags_match_def validRoles_def field_def)

lemma flags_match_one:
  "flags_match c (JStr r) \<Longrightarrow> r \<in> set validRoles \<Longrightarrow> true_flags c = [r]"
  by (auto simp: flags_match_def true_flags_def validRoles_def)

text \<open>
  Claim C3, as the code has it. Whatever the inputs, a claims record that one of the five
  paths attaches to an identity has the three role flags, each true exactly for the role
  at hand: the role of the document after the change (update trigger), the validated new
  role (\<open>updateUserRole\<close>), the stored role or \<open>lecturer\<close> when the document has none
  (\<open>approveUser\<close>, which attaches only for a truthy \<open>approved\<close>), \<open>admin\<close> (create trigger,
  which attaches only for an administrator, and \<open>createFirstAdmin\<close>). For a role among the
  three valid ones that makes exactly one flag true. The records of \<open>approveUser\<close>, of the
  create trigger and of \<open>createFirstAdmin\<close> carry \<open>approved: true\<close>; the records of the
  update trigger and of \<open>updateUserRole\<close> have no \<open>approved\<close> key at all.
\<close>

theorem attached_claims_record:
  "(\<forall>s c. (s, c) \<in> set (attached w (snd (onUserUpdate u before after now w))) \<longrightarrow>
        s = u \<and> flags_match c (field after ''role'') \<and> map_of c ''approved'' = None)
   \<and> (\<forall>s c. (s, c) \<in> set (attached w (snd (updateUserRole data ctx now w))) \<longrightarrow>
        field (props data) ''userId'' = JStr s
        \<and> field (props data) ''role'' \<in> JStr ` set validRoles
        \<and> flags_match c (field (props data) ''role'') \<and> map_of c ''approved'' = None)
   \<and> (\<forall>s c. (s, c) \<in> set (attached w (snd (approveUser data ctx now w))) \<longrightarrow>
        field (props data) ''userId'' = JStr s
        \<and> truthy (field (props data) ''approved'')
        \<and> (\<exists>usr. map_of (users w) s = Some usr
              \<and> flags_match c (js_or (field usr ''role'') (JStr ''lecturer'')))
        \<and> field c ''approved'' = JBool True)
   \<and> (\<forall>s c. (s, c) \<in> set (attached w (snd (onUserCreate u userData now w))) \<longrightarrow>
        s = u \<and> field userData ''role'' = JStr ''admin''
        \<and> flags_match c (JStr ''admin'') \<and> field c ''approved'' = JBool True)
   \<and> (\<forall>s c. (s, c) \<in> set (attached w (snd (createFirstAdmin data now new_uid w))) \<longrightarrow>
        s = new_uid \<and> flags_match c (JStr ''admin'') \<and> field c ''approved'' = JBool True)
   \<and> (\<forall>c r. flags_match c (JStr r) \<and> r \<in> set validRoles \<longrightarrow> true_flags c = [r])"
proof (intro conjI allI impI)
  fix s c
  assume "(s, c) \<in> set (attached w (snd (onUserUpdate u before after now w)))"
  from onUserUpdate_attached [OF this]
  show "s = u" and "flags_match c (field after ''role'')" and "map_of c ''approved'' = None"
    by (simp_all add: role_flags_match)
next
  fix s c
  assume "(s, c) \<in> set (attached w (snd (updateUserRole data ctx now w)))"
  from updateUserRole_attached [OF this]
  show "field (props data) ''userId'' = JStr s"
    and "field (props data) ''role'' \<in> JStr ` set validRoles"
    and "flags_match c (field (props data) ''role'')" and "map_of c ''approved'' = None"
    by (simp_all add: role_flags_match)
next
  fix s c
  assume "(s, c) \<in> set (attached w (snd (approveUser data ctx now w)))"
  from approveUser_attached [OF this]
  show "field (props data) ''userId'' = JStr s"
    and "truthy (field (props data) ''approved'')"
    and "\<exists>usr. map_of (users w) s = Some usr
            \<and> flags_match c (js_or (field usr ''role'') (JStr ''lecturer''))"
    and "field c ''approved'' = JBool True"
    using literal_flags_match by (auto simp: field_def)
next
  fix s c
  assume "(s, c) \<in> set (attached w (snd (onUserCreate u userData now w)))"
  from onUserCreate_attached [OF this]
  show "s = u" and "field userData ''role'' = JStr ''admin''"
    and "flags_match c (JStr ''admin'')" and "field c ''approved'' = JBool True"
    by (simp_all add: admin_flags_match field_def)
next
  fix s c
  assume "(s, c) \<in> set (attached w (snd (createFirstAdmin data now new_uid w)))"
  from createFirstAdmin_attached [OF this]
  show "s = new_uid" and "flags_match c (JStr ''admin'')" and "field c ''approved'' = JBool True"
    by (simp_all add: admin_flags_match field_def)
next
  fix c r
  assume "flags_match c (JStr r) \<and> r \<in> set validRoles"
  then show "true_flags c = [r]" by (simp add: flags_match_one)
qed

theorem attached_claims_record_witness:
  "attached campus_promoted
     (snd (onUserUpdate ''u1'' (user_doc ''lee'' ''lecturer'' True)
             (user_doc ''lee'' ''moderator'' True) 8 campus_promoted))
     = [(''u1'', [(''admin'', JBool False), (''moderator'', JBool True),
                  (''lecturer'', JBool False)])]
   \<and> flags_match [(''admin'', JBool False), (''moderator'', JBool True),
                   (''lecturer'', JBool False)] (JStr ''moderator'')
   \<and> true_flags [(''admin'', JBool False), (''moderator'', JBool True),
                  (''lecturer'', JBool False)] = [''moderator'']
   \<and> map_of [(''admin'', JBool False), (''moderator'', JBool True),
              (''lecturer'', JBool False)] ''approved'' = None
   \<and> attached campus
       (snd (updateUserRole (JObj [(''userId'', JStr ''u2''), (''role'', JStr ''admin'')])
               root_caller 7 campus))
     = [(''u2'', [(''admin'', JBool True), (''moderator'', JBool False),
                  (''lecturer'', JBool False)])]
   \<and> flags_match [(''admin'', JBool True), (''moderator'', JBool False),
                   (''lecturer'', JBool False)] (JStr ''admin'')
   \<and> map_of [(''admin'', JBool True), (''moderator'', JBool False),
              (''lecturer'', JBool False)] ''approved'' = None
   \<and> attached campus
       (snd (approveUser (JObj [(''userId'', JStr ''u2''), (''approved'', JBool True)])
               root_caller 7 campus))
     = [(''u2'', approved_claims ''lecturer'')]
   \<and> flags_match (approved_claims ''lecturer'') (JStr ''lecturer'')
   \<and> field (approved_claims ''lecturer'') ''approved'' = JBool True
   \<and> attached campus (snd (onUserCreate ''root'' (user_doc ''root'' ''admin'' True) 3 campus))
     = [(''root'', approved_claims ''admin'')]
   \<and> attached empty_world
       (snd (createFirstAdmin
          (JObj [(''email'', JStr ''ada@example.org''), (''password'', JStr ''secret1''),
                 (''displayName'', JStr ''ada'')]) 7 ''u9'' empty_world))
     = [(''u9'', approved_claims ''admin'')]
   \<and> flags_match (approved_claims ''admin'') (JStr ''admin'')
   \<and> field (approved_claims ''admin'') ''approved'' = JBool True"
proof -
  let ?mod = "[(''admin'', JBool False), (''moderator'', JBool True), (''lecturer'', JBool False)]"
  let ?adm = "[(''admin'', JBool True), (''moderator'', JBool False), (''lecturer'', JBool False)]"
  let ?role = "[(''userId'', JStr ''u2''), (''role'', JStr ''admin'')]"
  let ?appr = "[(''userId'', JStr ''u2''), (''approved'', JBool True)]"
  let ?ada = "[(''email'', JStr ''ada@example.org''), (''password'', JStr ''secret1''),
               (''displayName'', JStr ''ada'')]"
  note on_campus = attached_claims_record [where w = campus
      and data = "JObj ?role" and ctx = root_caller and now = 7]
  note on_campus' = attached_claims_record [where w = campus
      and data = "JObj ?appr" and ctx = root_caller and now = 7]
  have mem1: "(''u1'', ?mod) \<in> set (attached campus_promoted
       (snd (onUserUpdate ''u1'' (user_doc ''lee'' ''lecturer'' True)
               (user_doc ''lee'' ''moderator'' True) 8 campus_promoted)))"
    by (simp add: promote_attached)
  have role1: "field (user_doc ''lee'' ''moderator'' True) ''role'' = JStr ''moderator''"
    by (simp add: user_doc_def field_Cons)
  from attached_claims_record [where w = campus_promoted and u = "''u1''"
      and before = "user_doc ''lee'' ''lecturer'' True"
      and after = "user_doc ''lee'' ''moderator'' True" and now = 8] mem1
  have p1: "flags_match ?mod (field (user_doc ''lee'' ''moderator'' True) ''role'')
      \<and> map_of ?mod ''approved'' = None"
    and one: "\<forall>c r. flags_match c (JStr r) \<and> r \<in> set validRoles \<longrightarrow> true_flags c = [r]"
    by blast+
  have valid: "''moderator'' \<in> set validRoles"
    by (simp add: validRoles_def)
  have mem2: "(''u2'', ?adm) \<in> set (attached campus
       (snd (updateUserRole (JObj ?role) root_caller 7 campus)))"
    by (simp add: make_u2_admin_attached)
  have role2: "field (props (JObj ?role)) ''role'' = JStr ''admin''"
    by (simp add: props_def field_Cons)
  from on_campus mem2
  have p2: "flags_match ?adm (field (props (JObj ?role)) ''role'')
      \<and> map_of ?adm ''approved'' = None"
    by blast
  have mem3: "(''u2'', approved_claims ''lecturer'') \<in> set (attached campus
       (snd (approveUser (JObj ?appr) root_caller 7 campus)))"
    by (simp add: approve_u2_attached)
  from on_campus' mem3
  obtain usr where usr: "map_of (users campus) ''u2'' = Some usr"
    and p3: "flags_match (approved_claims ''lecturer'')
               (js_or (field usr ''role'') (JStr ''lecturer''))"
      "field (approved_claims ''lecturer'') ''approved'' = JBool True"
    by blast
  from usr have "js_or (field usr ''role'') (JStr ''lecturer'') = JStr ''lecturer''"
    by (auto simp: campus_def user_doc_def field_Cons js_or_def)
  with p3 have p3': "flags_match (approved_claims ''lecturer'') (JStr ''lecturer'')"
    by simp
  have mem4: "(''root'', approved_claims ''admin'') \<in> set (attached campus
       (snd (onUserCreate ''root'' (user_doc ''root'' ''admin'' True) 3 campus)))"
    by (simp add: create_root_attached)
  from attached_claims_record [where w = campus and u = "''root''"
      and userData = "user_doc ''root'' ''admin'' True" and now = 3] mem4
  have p4: "flags_match (approved_claims ''admin'') (JStr ''admin'')
      \<and> field (approved_claims ''admin'') ''approved'' = JBool True"
    by blast
  have mem5: "(''u9'', approved_claims ''admin'') \<in> set (attached empty_world
       (snd (createFirstAdmin (JObj ?ada) 7 ''u9'' empty_world)))"
    by (simp add: first_admin_attached)
  from attached_claims_record [where w = empty_world and data = "JObj ?ada" and now = 7
      and new_uid = "''u9''"] mem5
  have p5: "flags_match (approved_claims ''admin'') (JStr ''admin'')"
    by blast
  show ?thesis
    using p1 p2 p3 p3' p4 one valid
    by (simp add: promote_attached make_u2_admin_attached approve_u2_attached
          create_root_attached first_admin_attached role1 role2)
qed

text \<open>
  Claim C3 as stated fails on the update trigger: the role of \<open>u1\<close>, an approved lecturer,
  changes to moderator; the record the trigger attaches has the three role flags and no
  \<open>approved\<close> flag, although the document's \<open>approved\<close> field is \<open>true\<close>.
\<close>

theorem attached_claims_without_approved:
  "attached campus_promoted
     (snd (onUserUpdate ''u1'' (user_doc ''lee'' ''lecturer'' True)
             (user_doc ''lee'' ''moderator'' True) 8 campus_promoted))
   = [(''u1'', [(''admin'', JBool False), (''moderator'', JBool True),
                (''lecturer'', JBool False)])]
   \<and> field (user_doc ''lee'' ''moderator'' True) ''approved'' = JBool True
   \<and> field [(''admin'', JBool False), (''moderator'', JBool True),
             (''lecturer'', JBool False)] ''approved'' = JUndefined"
  by (simp add: promote_attached) (simp add: example_defs field_def)

section \<open>The order of the two writes\<close>

lemma approveUser_new_effects:
  "new_effects w (snd (approveUser data ctx now w)) = []
   \<or> (\<exists>u v. new_effects w (snd (approveUser data ctx now w))
               = [DocWrite Users u [(''approved'', v), (''updatedAt'', JTime now)]])
   \<or> (\<exists>u v usr. map_of (users w) u = Some usr \<and>
         new_effects w (snd (approveUser data ctx now w))
           = [DocWrite Users u [(''approved'', v), (''updatedAt'', JTime now)],
              SetClaims u
                [(''admin'', JBool (js_or (field usr ''role'') (JStr ''lecturer'') = JStr ''admin'')),
                 (''moderator'', JBool (js_or (field usr ''role'') (JStr ''lecturer'') = JStr ''moderator'')),
                 (''lecturer'', JBool (js_or (field usr ''role'') (JStr ''lecturer'') = JStr ''lecturer'')),
                 (''approved'', JBool True)]])"
  by (auto simp: approveUser_def try_catch_def await_def destructure_apply updateDoc_key
        getDocById_key setCustomUserClaims_key
        Let_def update_conv' field_assign field_with_id
      split: option.splits)

lemma onUserUpdate_order:
  "claims_first [] (new_effects w (snd (onUserUpdate u b a now w)))
   \<and> identity_first (new_effects w (snd (onUserUpdate u b a now w)))"
  by (simp add: onUserUpdate_apply Let_def split: option.splits)

lemma onUserCreate_order:
  "claims_first [] (new_effects w (snd (onUserCreate u ud now w)))
   \<and> (field ud ''role'' = JStr ''admin''
        \<longrightarrow> identity_first (new_effects w (snd (onUserCreate u ud now w))))"
  by (simp add: onUserCreate_apply Let_def split: option.splits)

lemma createFirstAdmin_order:
  "claims_first [] (new_effects w (snd (createFirstAdmin data now new_uid w)))
   \<and> identity_first (new_effects w (snd (createFirstAdmin data now new_uid w)))"
  by (auto simp: createFirstAdmin_def try_catch_def await_def destructure_apply queryDocs_apply
        createUser_def setCustomUserClaims_apply doc_apply fs_set_def Let_def update_conv'
        new_effects_def
      split: option.splits if_splits)

lemma onUserUpdate_write_fails:
  "\<not> strict_eq (field b ''role'') (field a ''role'') \<Longrightarrow> u \<noteq> []
   \<Longrightarrow> map_of (identities w) u = Some r \<Longrightarrow> map_of (users w) u = None
   \<Longrightarrow> onUserUpdate u b a now w =
       (Inr JNull,
        w\<lparr>identities :=
             AList.update u (AList.update ''customClaims'' (JObj (role_flags (field a ''role''))) r)
               (identities w),
           effects := effects w @ [SetClaims u (role_flags (field a ''role''))]\<rparr>)"
  by (simp add: onUserUpdate_apply Let_def)

lemma onUserCreate_write_fails:
  "field ud ''role'' = JStr ''admin'' \<Longrightarrow> u \<noteq> []
   \<Longrightarrow> map_of (identities w) u = Some r \<Longrightarrow> map_of (users w) u = None
   \<Longrightarrow> onUserCreate u ud now w =
       (Inr JNull,
        w\<lparr>identities :=
             AList.update u
               (AList.update ''customClaims''
                  (JObj [(''admin'', JBool True), (''moderator'', JBool False),
                         (''lecturer'', JBool False), (''approved'', JBool True)]) r)
               (identities w),
           effects := effects w @
             [SetClaims u [(''admin'', JBool True), (''moderator'', JBool False),
                           (''lecturer'', JBool False), (''approved'', JBool True)]]\<rparr>)"
  by (simp add: onUserCreate_apply Let_def)

text \<open>
  Claim C4, as the code has it. The update trigger, the create trigger and
  \<open>createFirstAdmin\<close> write a claims record into \<open>customClaims\<close> of a document only after
  they have attached the same record to the same identity, and (the create trigger for an
  administrator) their first write is that attachment. So when the document is missing
  and the document write of a trigger fails, the claims are attached all the same.
  \<open>approveUser\<close> works the other way round: it makes no write, or the write of \<open>approved\<close>
  and \<open>updatedAt\<close> to the document alone, or that write followed by the attachment; it
  never writes \<open>customClaims\<close>.
\<close>

theorem claims_before_mirror:
  "claims_first [] (new_effects w (snd (onUserUpdate u b a now w)))
   \<and> identity_first (new_effects w (snd (onUserUpdate u b a now w)))
   \<and> claims_first [] (new_effects w (snd (onUserCreate u ud now w)))
   \<and> (field ud ''role'' = JStr ''admin''
        \<longrightarrow> identity_first (new_effects w (snd (onUserCreate u ud now w))))
   \<and> claims_first [] (new_effects w (snd (createFirstAdmin data now new_uid w)))
   \<and> identity_first (new_effects w (snd (createFirstAdmin data now new_uid w)))
   \<and> (\<not> strict_eq (field b ''role'') (field a ''role'') \<and> u \<noteq> []
        \<and> map_of (identities w) u = Some r \<and> map_of (users w) u = None
        \<longrightarrow> identities (snd (onUserUpdate u b a now w))
            = AList.update u
                (AList.update ''customClaims'' (JObj (role_flags (field a ''role''))) r)
                (identities w))
   \<and> (field ud ''role'' = JStr ''admin'' \<and> u \<noteq> []
        \<and> map_of (identities w) u = Some r \<and> map_of (users w) u = None
        \<longrightarrow> identities (snd (onUserCreate u ud now w))
            = AList.update u
                (AList.update ''customClaims''
                   (JObj [(''admin'', JBool True), (''moderator'', JBool False),
                          (''lecturer'', JBool False), (''approved'', JBool True)]) r)
                (identities w))
   \<and> (new_effects w (snd (approveUser data ctx now w)) = []
        \<or> (\<exists>i v. new_effects w (snd (approveUser data ctx now w))
                   = [DocWrite Users i [(''approved'', v), (''updatedAt'', JTime now)]])
        \<or> (\<exists>i v c. new_effects w (snd (approveUser data ctx now w))
                   = [DocWrite Users i [(''approved'', v), (''updatedAt'', JTime now)],
                      SetClaims i c]))"
proof -
  have "new_effects w (snd (approveUser data ctx now w)) = []
        \<or> (\<exists>i v. new_effects w (snd (approveUser data ctx now w))
                   = [DocWrite Users i [(''approved'', v), (''updatedAt'', JTime now)]])
        \<or> (\<exists>i v c. new_effects w (snd (approveUser data ctx now w))
                   = [DocWrite Users i [(''approved'', v), (''updatedAt'', JTime now)],
                      SetClaims i c])"
    using approveUser_new_effects [of w data ctx now] by blast
  then show ?thesis
    using onUserUpdate_order [of w u b a now] onUserCreate_order [of w u ud now]
      createFirstAdmin_order [of w data now new_uid]
      onUserUpdate_write_fails [of b a u w r now] onUserCreate_write_fails [of ud u w r now]
    by simp
qed

theorem claims_before_mirror_witness:
  "new_effects campus_promoted
     (snd (onUserUpdate ''u1'' (user_doc ''lee'' ''lecturer'' True)
             (user_doc ''lee'' ''moderator'' True) 8 campus_promoted))
   = [SetClaims ''u1'' [(''admin'', JBool False), (''moderator'', JBool True),
                        (''lecturer'', JBool False)],
      DocWrite Users ''u1''
        [(''customClaims'', JObj [(''admin'', JBool False), (''moderator'', JBool True),
                                  (''lecturer'', JBool False)]),
         (''updatedAt'', JTime 8)]]
   \<and> claims_first [] (new_effects campus_promoted
        (snd (onUserUpdate ''u1'' (user_doc ''lee'' ''lecturer'' True)
                (user_doc ''lee'' ''moderator'' True) 8 campus_promoted)))
   \<and> new_effects campus (snd (onUserCreate ''root'' (user_doc ''root'' ''admin'' True) 3 campus))
     = [SetClaims ''root'' (approved_claims ''admin''),
        DocWrite Users ''root''
          [(''approved'', JBool True),
           (''customClaims'', JObj (approved_claims ''admin'')),
           (''updatedAt'', JTime 3)]]
   \<and> identity_first (new_effects campus
        (snd (onUserCreate ''root'' (user_doc ''root'' ''admin'' True) 3 campus)))
   \<and> map_of (users (campus\<lparr>users := []\<rparr>)) ''u1'' = None
   \<and> map_of (identities (snd (onUserUpdate ''u1'' (user_doc ''lee'' ''lecturer'' True)
                (user_doc ''lee'' ''moderator'' True) 8 (campus\<lparr>users := []\<rparr>)))) ''u1''
      = Some [(''email'', JStr ''lee@example.org''),
              (''customClaims'', JObj [(''admin'', JBool False), (''moderator'', JBool True),
                                       (''lecturer'', JBool False)])]
   \<and> map_of (identities (snd (onUserCreate ''root'' (user_doc ''root'' ''admin'' True) 3
                (campus\<lparr>users := []\<rparr>)))) ''root''
      = Some [(''email'', JStr ''root@example.org''),
              (''customClaims'', JObj [(''admin'', JBool True), (''moderator'', JBool False),
                                       (''lecturer'', JBool False), (''approved'', JBool True)])]"
proof -
  let ?b = "user_doc ''lee'' ''lecturer'' True" and ?a = "user_doc ''lee'' ''moderator'' True"
  let ?root = "user_doc ''root'' ''admin'' True"
  let ?r = "[(''email'', JStr ''lee@example.org''),
             (''customClaims'', JObj (approved_claims ''lecturer''))]"
  let ?rr = "[(''email'', JStr ''root@example.org''),
              (''customClaims'', JObj (approved_claims ''admin''))]"
  have eff: "new_effects campus_promoted (snd (onUserUpdate ''u1'' ?b ?a 8 campus_promoted))
      = [SetClaims ''u1'' [(''admin'', JBool False), (''moderator'', JBool True),
                           (''lecturer'', JBool False)],
         DocWrite Users ''u1''
           [(''customClaims'', JObj [(''admin'', JBool False), (''moderator'', JBool True),
                                     (''lecturer'', JBool False)]),
            (''updatedAt'', JTime 8)]]"
    unfolding onUserUpdate_apply
    by (simp add: campus_promoted_def campus_def example_defs field_def role_flags_eq Let_def
          new_effects_def)
  have eff2: "new_effects campus (snd (onUserCreate ''root'' ?root 3 campus))
     = [SetClaims ''root'' (approved_claims ''admin''),
        DocWrite Users ''root''
          [(''approved'', JBool True),
           (''customClaims'', JObj (approved_claims ''admin'')),
           (''updatedAt'', JTime 3)]]"
    unfolding create_root_run by (simp add: new_effects_def campus_def)
  have h1: "\<not> strict_eq (field ?b ''role'') (field ?a ''role'')"
    by (simp add: example_defs field_def)
  have h2: "''u1'' \<noteq> []" "''root'' \<noteq> []" by simp_all
  have h3: "map_of (identities (campus\<lparr>users := []\<rparr>)) ''u1'' = Some ?r"
    "map_of (identities (campus\<lparr>users := []\<rparr>)) ''root'' = Some ?rr"
    by (simp_all add: campus_def)
  have h4: "map_of (users (campus\<lparr>users := []\<rparr>)) ''u1'' = None"
    "map_of (users (campus\<lparr>users := []\<rparr>)) ''root'' = None"
    by simp_all
  have h5: "field ?root ''role'' = JStr ''admin''"
    by (simp add: user_doc_def field_Cons)
  have flags: "role_flags (field ?a ''role'')
      = [(''admin'', JBool False), (''moderator'', JBool True), (''lecturer'', JBool False)]"
    by (simp add: role_flags_eq example_defs field_def)
  from claims_before_mirror [where w = campus_promoted and u = "''u1''" and b = ?b
      and a = ?a and now = 8]
  have c1: "claims_first [] (new_effects campus_promoted
        (snd (onUserUpdate ''u1'' ?b ?a 8 campus_promoted)))"
    by blast
  from claims_before_mirror [where w = campus and u = "''root''" and ud = ?root and now = 3] h5
  have c3: "identity_first (new_effects campus (snd (onUserCreate ''root'' ?root 3 campus)))"
    by blast
  from claims_before_mirror [where w = "campus\<lparr>users := []\<rparr>" and u = "''u1''"
      and b = ?b and a = ?a and now = 8 and r = ?r] h1 h2 h3 h4
  have "identities (snd (onUserUpdate ''u1'' ?b ?a 8 (campus\<lparr>users := []\<rparr>)))
      = AList.update ''u1''
          (AList.update ''customClaims'' (JObj (role_flags (field ?a ''role''))) ?r)
          (identities (campus\<lparr>users := []\<rparr>))"
    by blast
  then have c2: "map_of (identities (snd (onUserUpdate ''u1'' ?b ?a 8 (campus\<lparr>users := []\<rparr>))))
        ''u1''
      = Some [(''email'', JStr ''lee@example.org''),
              (''customClaims'', JObj [(''admin'', JBool False), (''moderator'', JBool True),
                                       (''lecturer'', JBool False)])]"
    by (simp add: flags update_conv')
  from claims_before_mirror [where w = "campus\<lparr>users := []\<rparr>" and u = "''root''"
      and ud = ?root and now = 3 and r = ?rr] h5 h2 h3 h4
  have "identities (snd (onUserCreate ''root'' ?root 3 (campus\<lparr>users := []\<rparr>)))
      = AList.update ''root''
          (AList.update ''customClaims''
             (JObj [(''admin'', JBool True), (''moderator'', JBool False),
                    (''lecturer'', JBool False), (''approved'', JBool True)]) ?rr)
          (identities (campus\<lparr>users := []\<rparr>))"
    by blast
  then have c4: "map_of (identities (snd (onUserCreate ''root'' ?root 3
        (campus\<lparr>users := []\<rparr>)))) ''root''
      = Some [(''email'', JStr ''root@example.org''),
              (''customClaims'', JObj [(''admin'', JBool True), (''moderator'', JBool False),
                                       (''lecturer'', JBool False), (''approved'', JBool True)])]"
    by (simp add: update_conv')
  show ?thesis
    using eff c1 eff2 c3 h4 c2 c4 by simp
qed

text \<open>
  Claim C4 as stated fails on \<open>approveUser\<close>. Approving \<open>u2\<close> writes the document first and
  attaches the claims second, and the document gets no \<open>customClaims\<close>. Where the
  identity provider does not know \<open>u2\<close>, the call fails with the document already
  approved and no claims attached.
\<close>

theorem approveUser_writes_document_first:
  "new_effects campus
     (snd (approveUser (JObj [(''userId'', JStr ''u2''), (''approved'', JBool True)])
             root_caller 7 campus))
   = [DocWrite Users ''u2'' [(''approved'', JBool True), (''updatedAt'', JTime 7)],
      SetClaims ''u2'' [(''admin'', JBool False), (''moderator'', JBool False),
                        (''lecturer'', JBool True), (''approved'', JBool True)]]
   \<and> \<not> identity_first (new_effects campus
         (snd (approveUser (JObj [(''userId'', JStr ''u2''), (''approved'', JBool True)])
                 root_caller 7 campus)))
   \<and> field (the (map_of (users
         (snd (approveUser (JObj [(''userId'', JStr ''u2''), (''approved'', JBool True)])
                 root_caller 7 campus))) ''u2'')) ''customClaims'' = JUndefined
   \<and> fst (approveUser (JObj [(''userId'', JStr ''u2''), (''approved'', JBool True)])
            root_caller 7 (campus\<lparr>identities := []\<rparr>))
      = Inl (HttpsError Internal ''auth/user-not-found'')
   \<and> field (the (map_of (users
         (snd (approveUser (JObj [(''userId'', JStr ''u2''), (''approved'', JBool True)])
                 root_caller 7 (campus\<lparr>identities := []\<rparr>)))) ''u2'')) ''approved'' = JBool True
   \<and> attached (campus\<lparr>identities := []\<rparr>)
        (snd (approveUser (JObj [(''userId'', JStr ''u2''), (''approved'', JBool True)])
                root_caller 7 (campus\<lparr>identities := []\<rparr>))) = []"
  unfolding approve_u2_apply
  by (simp add: campus_def user_doc_def js_or_def assign_def field_def Let_def
        new_effects_def attached_def)

section \<open>The errors a caller of the first-admin bootstrap receives\<close>

lemma createFirstAdmin_errors:
  "createFirstAdmin data now new_uid w = (Inl e, w') \<Longrightarrow> \<exists>m. e = HttpsError Internal m"
  by (auto simp: createFirstAdmin_def try_catch_def split: prod.splits sum.splits)

text \<open>
  Claim C5, on the code. Every error of \<open>createFirstAdmin\<close> reaches the caller as an
  \<open>HttpsError\<close> of kind \<open>internal\<close>: the errors raised on purpose inside the \<open>try\<close> block are
  caught by its own \<open>catch\<close> and thrown again as \<open>internal\<close> with the same message. So with
  an administrator among the user documents the caller gets \<open>internal\<close>, not
  \<open>failed-precondition\<close>, and nothing is written; without a payload the caller gets
  \<open>internal\<close>, not \<open>invalid-argument\<close>. Otherwise, for an e-mail address that is not
  registered and a fresh identifier, the call creates the identity with the
  administrator's claims and the user document with role \<open>admin\<close>, \<open>approved = true\<close> and
  the same claims in \<open>customClaims\<close>.
\<close>

theorem createFirstAdmin_result:
  "(createFirstAdmin data now new_uid w = (Inl e, w') \<longrightarrow> (\<exists>m. e = HttpsError Internal m))
   \<and> (falsy data \<longrightarrow>
        createFirstAdmin data now new_uid w = (Inl (HttpsError Internal ''No data provided''), w))
   \<and> (truthy (field d ''email'') \<and> truthy (field d ''password'')
        \<and> truthy (field d ''displayName'')
        \<and> list_ex (\<lambda>(i, usr). map_of usr ''role'' = Some (JStr ''admin'')) (users w) \<longrightarrow>
        createFirstAdmin (JObj d) now new_uid w =
          (Inl (HttpsError Internal
                  ''An admin user already exists. Cannot create the first admin.''), w))
   \<and> (truthy (field d ''email'') \<and> truthy (field d ''password'')
        \<and> truthy (field d ''displayName'')
        \<and> list_all (\<lambda>(i, usr). map_of usr ''role'' \<noteq> Some (JStr ''admin'')) (users w)
        \<and> list_all (\<lambda>(i, r). field r ''email'' \<noteq> field d ''email'') (identities w)
        \<and> map_of (identities w) new_uid = None \<and> new_uid \<noteq> [] \<longrightarrow>
        createFirstAdmin (JObj d) now new_uid w =
          (Inr [(''success'', JBool True),
                (''message'', JStr ''First admin user created successfully''),
                (''userId'', JStr new_uid)],
           w\<lparr>identities :=
                AList.update new_uid
                  [(''email'', field d ''email''), (''password'', field d ''password''),
                   (''displayName'', field d ''displayName''),
                   (''emailVerified'', JBool True),
                   (''customClaims'',
                    JObj [(''admin'', JBool True), (''moderator'', JBool False),
                          (''lecturer'', JBool False), (''approved'', JBool True)])]
                  (identities w),
              users :=
                AList.update new_uid
                  [(''displayName'', field d ''displayName''),
                   (''email'', field d ''email''),
                   (''role'', JStr ''admin''),
                   (''approved'', JBool True),
                   (''active'', JBool True),
                   (''customClaims'',
                    JObj [(''admin'', JBool True), (''moderator'', JBool False),
                          (''lecturer'', JBool False), (''approved'', JBool True)]),
                   (''createdAt'', JTime now),
                   (''updatedAt'', JTime now)]
                  (users w),
              effects := effects w @
                [SetClaims new_uid
                   [(''admin'', JBool True), (''moderator'', JBool False),
                    (''lecturer'', JBool False), (''approved'', JBool True)],
                 DocWrite Users new_uid
                   [(''displayName'', field d ''displayName''),
                    (''email'', field d ''email''),
                    (''role'', JStr ''admin''),
                    (''approved'', JBool True),
                    (''active'', JBool True),
                    (''customClaims'',
                     JObj [(''admin'', JBool True), (''moderator'', JBool False),
                           (''lecturer'', JBool False), (''approved'', JBool True)]),
                    (''createdAt'', JTime now),
                    (''updatedAt'', JTime now)]]\<rparr>))"
proof (intro conjI impI)
  assume "createFirstAdmin data now new_uid w = (Inl e, w')"
  then show "\<exists>m. e = HttpsError Internal m" by (rule createFirstAdmin_errors)
next
  assume "falsy data"
  then show "createFirstAdmin data now new_uid w
      = (Inl (HttpsError Internal ''No data provided''), w)"
    by (simp add: createFirstAdmin_def try_catch_def)
next
  assume a: "truthy (field d ''email'') \<and> truthy (field d ''password'')
        \<and> truthy (field d ''displayName'')
        \<and> list_ex (\<lambda>(i, usr). map_of usr ''role'' = Some (JStr ''admin'')) (users w)"
  then have t: "truthy (field d ''email'')" "truthy (field d ''password'')"
    "truthy (field d ''displayName'')" by simp_all
  show "createFirstAdmin (JObj d) now new_uid w =
          (Inl (HttpsError Internal
                  ''An admin user already exists. Cannot create the first admin.''), w)"
    using a by (simp add: createFirstAdmin_apply [OF t])
next
  assume a: "truthy (field d ''email'') \<and> truthy (field d ''password'')
        \<and> truthy (field d ''displayName'')
        \<and> list_all (\<lambda>(i, usr). map_of usr ''role'' \<noteq> Some (JStr ''admin'')) (users w)
        \<and> list_all (\<lambda>(i, r). field r ''email'' \<noteq> field d ''email'') (identities w)
        \<and> map_of (identities w) new_uid = None \<and> new_uid \<noteq> []"
  then have t: "truthy (field d ''email'')" "truthy (field d ''password'')"
    "truthy (field d ''displayName'')" by simp_all
  from a have n1: "\<not> list_ex (\<lambda>(i, usr). map_of usr ''role'' = Some (JStr ''admin'')) (users w)"
    and n2: "\<not> list_ex (\<lambda>(i, r). field r ''email'' = field d ''email'') (identities w)"
    by (auto simp: list_ex_iff list_all_iff)
  show "createFirstAdmin (JObj d) now new_uid w =
          (Inr [(''success'', JBool True),
                (''message'', JStr ''First admin user created successfully''),
                (''userId'', JStr new_uid)],
           w\<lparr>identities :=
                AList.update new_uid
                  [(''email'', field d ''email''), (''password'', field d ''password''),
                   (''displayName'', field d ''displayName''),
                   (''emailVerified'', JBool True),
                   (''customClaims'',
                    JObj [(''admin'', JBool True), (''moderator'', JBool False),
                          (''lecturer'', JBool False), (''approved'', JBool True)])]
                  (identities w),
              users :=
                AList.update new_uid
                  [(''displayName'', field d ''displayName''),
                   (''email'', field d ''email''),
                   (''role'', JStr ''admin''),
                   (''approved'', JBool True),
                   (''active'', JBool True),
                   (''customClaims'',
                    JObj [(''admin'', JBool True), (''moderator'', JBool False),
                          (''lecturer'', JBool False), (''approved'', JBool True)]),
                   (''createdAt'', JTime now),
                   (''updatedAt'', JTime now)]
                  (users w),
              effects := effects w @
                [SetClaims new_uid
                   [(''admin'', JBool True), (''moderator'', JBool False),
                    (''lecturer'', JBool False), (''approved'', JBool True)],
                 DocWrite Users new_uid
                   [(''displayName'', field d ''displayName''),
                    (''email'', field d ''email''),
                    (''role'', JStr ''admin''),
                    (''approved'', JBool True),
                    (''active'', JBool True),
                    (''customClaims'',
                     JObj [(''admin'', JBool True), (''moderator'', JBool False),
                           (''lecturer'', JBool False), (''approved'', JBool True)]),
                    (''createdAt'', JTime now),
                    (''updatedAt'', JTime now)]]\<rparr>)"
    using a n1 n2 by (simp add: createFirstAdmin_apply [OF t] Let_def)
qed

theorem createFirstAdmin_result_witness:
  "createFirstAdmin JNull 7 ''u9'' campus
      = (Inl (HttpsError Internal ''No data provided''), campus)
   \<and> list_ex (\<lambda>(i, usr). map_of usr ''role'' = Some (JStr ''admin'')) (users campus)
   \<and> createFirstAdmin
        (JObj [(''email'', JStr ''ada@example.org''), (''password'', JStr ''secret1''),
               (''displayName'', JStr ''ada'')]) 7 ''u9'' campus
      = (Inl (HttpsError Internal
                ''An admin user already exists. Cannot create the first admin.''), campus)
   \<and> fst (createFirstAdmin
        (JObj [(''email'', JStr ''ada@example.org''), (''password'', JStr ''secret1''),
               (''displayName'', JStr ''ada'')]) 7 ''u9'' empty_world)
      = Inr [(''success'', JBool True),
             (''message'', JStr ''First admin user created successfully''),
             (''userId'', JStr ''u9'')]
   \<and> users (snd (createFirstAdmin
        (JObj [(''email'', JStr ''ada@example.org''), (''password'', JStr ''secret1''),
               (''displayName'', JStr ''ada'')]) 7 ''u9'' empty_world))
      = [(''u9'', [(''displayName'', JStr ''ada''),
                   (''email'', JStr ''ada@example.org''),
                   (''role'', JStr ''admin''),
                   (''approved'', JBool True),
                   (''active'', JBool True),
                   (''customClaims'',
                    JObj [(''admin'', JBool True), (''moderator'', JBool False),
                          (''lecturer'', JBool False), (''approved'', JBool True)]),
                   (''createdAt'', JTime 7),
                   (''updatedAt'', JTime 7)])]"
proof -
  let ?d = "[(''email'', JStr ''ada@example.org''), (''password'', JStr ''secret1''),
             (''displayName'', JStr ''ada'')]"
  have t: "truthy (field ?d ''email'')" "truthy (field ?d ''password'')"
    "truthy (field ?d ''displayName'')"
    by (simp_all add: field_Cons)
  have adm: "list_ex (\<lambda>(i, usr). map_of usr ''role'' = Some (JStr ''admin'')) (users campus)"
    by (simp add: campus_def user_doc_def)
  have none: "list_all (\<lambda>(i, usr). map_of usr ''role'' \<noteq> Some (JStr ''admin''))
                (users empty_world)"
    "list_all (\<lambda>(i, r). field r ''email'' \<noteq> field ?d ''email'') (identities empty_world)"
    "map_of (identities empty_world) ''u9'' = None" "''u9'' \<noteq> []"
    by (simp_all add: empty_world_def)
  note inst1 = createFirstAdmin_result [where d = ?d and w = campus and now = 7
      and new_uid = "''u9''"]
  note inst2 = createFirstAdmin_result [where d = ?d and w = empty_world and now = 7
      and new_uid = "''u9''"]
  from inst1 t adm have r1: "createFirstAdmin (JObj ?d) 7 ''u9'' campus
      = (Inl (HttpsError Internal
                ''An admin user already exists. Cannot create the first admin.''), campus)"
    by blast
  from inst2 t none have r2: "createFirstAdmin (JObj ?d) 7 ''u9'' empty_world =
          (Inr [(''success'', JBool True),
                (''message'', JStr ''First admin user created successfully''),
                (''userId'', JStr ''u9'')],
           empty_world\<lparr>identities :=
                AList.update ''u9''
                  [(''email'', field ?d ''email''), (''password'', field ?d ''password''),
                   (''displayName'', field ?d ''displayName''),
                   (''emailVerified'', JBool True),
                   (''customClaims'',
                    JObj [(''admin'', JBool True), (''moderator'', JBool False),
                          (''lecturer'', JBool False), (''approved'', JBool True)])]
                  (identities empty_world),
              users :=
                AList.update ''u9''
                  [(''displayName'', field ?d ''displayName''),
                   (''email'', field ?d ''email''),
                   (''role'', JStr ''admin''),
                   (''approved'', JBool True),
                   (''active'', JBool True),
                   (''customClaims'',
                    JObj [(''admin'', JBool True), (''moderator'', JBool False),
                          (''lecturer'', JBool False), (''approved'', JBool True)]),
                   (''createdAt'', JTime 7),
                   (''updatedAt'', JTime 7)]
                  (users empty_world),
              effects := effects empty_world @
                [SetClaims ''u9''
                   [(''admin'', JBool True), (''moderator'', JBool False),
                    (''lecturer'', JBool False), (''approved'', JBool True)],
                 DocWrite Users ''u9''
                   [(''displayName'', field ?d ''displayName''),
                    (''email'', field ?d ''email''),
                    (''role'', JStr ''admin''),
                    (''approved'', JBool True),
                    (''active'', JBool True),
                    (''customClaims'',
                     JObj [(''admin'', JBool True), (''moderator'', JBool False),
                           (''lecturer'', JBool False), (''approved'', JBool True)]),
                    (''createdAt'', JTime 7),
                    (''updatedAt'', JTime 7)]]\<rparr>)"
    by blast
  from createFirstAdmin_result [where data = JNull and w = campus and now = 7
      and new_uid = "''u9''"]
  have r0: "createFirstAdmin JNull 7 ''u9'' campus
      = (Inl (HttpsError Internal ''No data provided''), campus)"
    by simp
  show ?thesis
    unfolding r2 using adm r0 r1 by (simp add: empty_world_def field_Cons)
qed

section \<open>Creating an assessment\<close>

lemma createAssessment_errors:
  "createAssessment data ctx now auto_id w = (Inl e, w') \<Longrightarrow> \<exists>m. e = HttpsError Internal m"
  by (auto simp: createAssessment_def try_catch_def split: prod.splits sum.splits)

lemma createAssessment_denied:
  assumes "map_of (users w) (uid a) = Some usr"
    and "field usr ''role'' = JStr ''lecturer''" and "field usr ''approved'' = JBool False"
  shows "createAssessment data (Some a) now auto_id w =
           (Inl (HttpsError Internal ''Only lecturers can create assessments.''), w)"
  using assms
  by (simp add: createAssessment_def try_catch_def await_def verifyUserRole_two Let_def)

lemma createAssessment_created:
  assumes "map_of (users w) (uid a) = Some usr" and "uid a \<noteq> []"
    and "field usr ''role'' = JStr ''lecturer''" and "field usr ''approved'' = JBool True"
    and "truthy (field d ''title'')" and "truthy (field d ''content'')"
    and "truthy (field d ''type'')"
    and "map_of (assessments w) auto_id = None"
  shows "createAssessment (JObj d) (Some a) now auto_id w =
           (Inr [(''success'', JBool True),
                 (''message'', JStr ''Assessment created successfully''),
                 (''assessmentId'', JStr auto_id)],
            w\<lparr>assessments :=
                 AList.update auto_id
                   [(''title'', field d ''title''),
                    (''description'', js_or (field d ''description'') (JStr [])),
                    (''content'', field d ''content''),
                    (''type'', field d ''type''),
                    (''status'', JStr ''draft''),
                    (''lecturerId'', JStr (uid a)),
                    (''moderatorId'', JNull),
                    (''feedback'', JNull),
                    (''createdAt'', JTime now),
                    (''updatedAt'', JTime now)]
                   (assessments w),
               effects := effects w @
                 [DocWrite Assessments auto_id
                    [(''title'', field d ''title''),
                     (''description'', js_or (field d ''description'') (JStr [])),
                     (''content'', field d ''content''),
                     (''type'', field d ''type''),
                     (''status'', JStr ''draft''),
                     (''lecturerId'', JStr (uid a)),
                     (''moderatorId'', JNull),
                     (''feedback'', JNull),
                     (''createdAt'', JTime now),
                     (''updatedAt'', JTime now)]]\<rparr>)"
  using assms
  by (simp add: createAssessment_def try_catch_def await_def verifyUserRole_two Let_def
        destructure_def createDoc_apply falsy_iff)

text \<open>
  Claim C6, on the code. Every error of \<open>createAssessment\<close> reaches the caller as an
  \<open>HttpsError\<close> of kind \<open>internal\<close>. A caller whose user document has role \<open>lecturer\<close> and
  \<open>approved = false\<close> is refused and nothing is written, but the error the caller gets
  is \<open>internal\<close> with the message of the \<open>permission-denied\<close> error thrown inside, not
  \<open>permission-denied\<close>. An approved lecturer with non-empty title, content and type gets
  a new assessment document with status \<open>draft\<close>, \<open>moderatorId\<close> and \<open>feedback\<close> null, and
  the caller's identifier as \<open>lecturerId\<close>.
\<close>

theorem createAssessment_result:
  "(createAssessment data ctx now auto_id w = (Inl e, w') \<longrightarrow> (\<exists>m. e = HttpsError Internal m))
   \<and> (map_of (users w) (uid a) = Some usr
        \<and> field usr ''role'' = JStr ''lecturer'' \<and> field usr ''approved'' = JBool False \<longrightarrow>
        createAssessment data (Some a) now auto_id w =
          (Inl (HttpsError Internal ''Only lecturers can create assessments.''), w))
   \<and> (map_of (users w) (uid a) = Some usr \<and> uid a \<noteq> []
        \<and> field usr ''role'' = JStr ''lecturer'' \<and> field usr ''approved'' = JBool True
        \<and> truthy (field d ''title'') \<and> truthy (field d ''content'') \<and> truthy (field d ''type'')
        \<and> map_of (assessments w) auto_id = None \<longrightarrow>
        createAssessment (JObj d) (Some a) now auto_id w =
           (Inr [(''success'', JBool True),
                 (''message'', JStr ''Assessment created successfully''),
                 (''assessmentId'', JStr auto_id)],
            w\<lparr>assessments :=
                 AList.update auto_id
                   [(''title'', field d ''title''),
                    (''description'', js_or (field d ''description'') (JStr [])),
                    (''content'', field d ''content''),
                    (''type'', field d ''type''),
                    (''status'', JStr ''draft''),
                    (''lecturerId'', JStr (uid a)),
                    (''moderatorId'', JNull),
                    (''feedback'', JNull),
                    (''createdAt'', JTime now),
                    (''updatedAt'', JTime now)]
                   (assessments w),
               effects := effects w @
                 [DocWrite Assessments auto_id
                    [(''title'', field d ''title''),
                     (''description'', js_or (field d ''description'') (JStr [])),
                     (''content'', field d ''content''),
                     (''type'', field d ''type''),
                     (''status'', JStr ''draft''),
                     (''lecturerId'', JStr (uid a)),
                     (''moderatorId'', JNull),
                     (''feedback'', JNull),
                     (''createdAt'', JTime now),
                     (''updatedAt'', JTime now)]]\<rparr>))"
  using createAssessment_errors [of data ctx now auto_id w e w']
    createAssessment_denied [of w a usr data now auto_id]
    createAssessment_created [of w a usr d auto_id now]
  by blast

theorem createAssessment_result_witness:
  "map_of (users campus) ''u2'' = Some (user_doc ''max'' ''lecturer'' False)
   \<and> createAssessment
        (JObj [(''title'', JStr ''Quiz''), (''content'', JStr ''Q1''), (''type'', JStr ''quiz'')])
        (caller ''u2'' []) 7 ''a2'' campus
      = (Inl (HttpsError Internal ''Only lecturers can create assessments.''), campus)
   \<and> fst (createAssessment
        (JObj [(''title'', JStr ''Quiz''), (''content'', JStr ''Q1''), (''type'', JStr ''quiz'')])
        (caller ''u1'' (approved_claims ''lecturer'')) 7 ''a2'' campus)
      = Inr [(''success'', JBool True),
             (''message'', JStr ''Assessment created successfully''),
             (''assessmentId'', JStr ''a2'')]
   \<and> map_of (assessments (snd (createAssessment
        (JObj [(''title'', JStr ''Quiz''), (''content'', JStr ''Q1''), (''type'', JStr ''quiz'')])
        (caller ''u1'' (approved_claims ''lecturer'')) 7 ''a2'' campus))) ''a2''
      = Some [(''title'', JStr ''Quiz''),
              (''description'', JStr []),
              (''content'', JStr ''Q1''),
              (''type'', JStr ''quiz''),
              (''status'', JStr ''draft''),
              (''lecturerId'', JStr ''u1''),
              (''moderatorId'', JNull),
              (''feedback'', JNull),
              (''createdAt'', JTime 7),
              (''updatedAt'', JTime 7)]"
proof -
  let ?d = "[(''title'', JStr ''Quiz''), (''content'', JStr ''Q1''), (''type'', JStr ''quiz'')]"
  let ?a2 = "\<lparr>uid = ''u2'', token = []\<rparr>"
  let ?a1 = "\<lparr>uid = ''u1'', token = approved_claims ''lecturer''\<rparr>"
  have u2: "map_of (users campus) (uid ?a2) = Some (user_doc ''max'' ''lecturer'' False)"
    and u2r: "field (user_doc ''max'' ''lecturer'' False) ''role'' = JStr ''lecturer''"
    and u2a: "field (user_doc ''max'' ''lecturer'' False) ''approved'' = JBool False"
    by (simp_all add: campus_def user_doc_def field_Cons)
  have u1: "map_of (users campus) (uid ?a1) = Some (user_doc ''lee'' ''lecturer'' True)"
    and u1n: "uid ?a1 \<noteq> []"
    and u1r: "field (user_doc ''lee'' ''lecturer'' True) ''role'' = JStr ''lecturer''"
    and u1a: "field (user_doc ''lee'' ''lecturer'' True) ''approved'' = JBool True"
    and t: "truthy (field ?d ''title'')" "truthy (field ?d ''content'')" "truthy (field ?d ''type'')"
    and fresh: "map_of (assessments campus) ''a2'' = None"
    by (simp_all add: campus_def user_doc_def field_Cons)
  note inst2 = createAssessment_result [where w = campus and a = ?a2
      and usr = "user_doc ''max'' ''lecturer'' False" and data = "JObj ?d" and now = 7
      and auto_id = "''a2''"]
  note inst1 = createAssessment_result [where w = campus and a = ?a1
      and usr = "user_doc ''lee'' ''lecturer'' True" and d = ?d and now = 7
      and auto_id = "''a2''"]
  from inst2 u2 u2r u2a
  have r2: "createAssessment (JObj ?d) (Some ?a2) 7 ''a2'' campus
      = (Inl (HttpsError Internal ''Only lecturers can create assessments.''), campus)"
    by blast
  from inst1 u1 u1n u1r u1a t fresh
  have r1: "createAssessment (JObj ?d) (Some ?a1) 7 ''a2'' campus =
           (Inr [(''success'', JBool True),
                 (''message'', JStr ''Assessment created successfully''),
                 (''assessmentId'', JStr ''a2'')],
            campus\<lparr>assessments :=
                 AList.update ''a2''
                   [(''title'', field ?d ''title''),
                    (''description'', js_or (field ?d ''description'') (JStr [])),
                    (''content'', field ?d ''content''),
                    (''type'', field ?d ''type''),
                    (''status'', JStr ''draft''),
                    (''lecturerId'', JStr (uid ?a1)),
                    (''moderatorId'', JNull),
                    (''feedback'', JNull),
                    (''createdAt'', JTime 7),
                    (''updatedAt'', JTime 7)]
                   (assessments campus),
               effects := effects campus @
                 [DocWrite Assessments ''a2''
                    [(''title'', field ?d ''title''),
                     (''description'', js_or (field ?d ''description'') (JStr [])),
                     (''content'', field ?d ''content''),
                     (''type'', field ?d ''type''),
                     (''status'', JStr ''draft''),
                     (''lecturerId'', JStr (uid ?a1)),
                     (''moderatorId'', JNull),
                     (''feedback'', JNull),
                     (''createdAt'', JTime 7),
                     (''updatedAt'', JTime 7)]]\<rparr>)"
    by blast
  show ?thesis
    unfolding caller_def r1 r2 using u2
    by (simp add: update_conv' field_Cons field_Nil js_or_def)
qed

section \<open>Moderating an assessment\<close>

lemma moderateAssessment_errors:
  "moderateAssessment data ctx now w = (Inl e, w') \<Longrightarrow> \<exists>m. e = HttpsError Internal m"
  by (auto simp: moderateAssessment_def try_catch_def split: prod.splits sum.splits)

lemma moderateAssessment_bad_status:
  assumes "map_of (users w) (uid a) = Some usr" and "uid a \<noteq> []"
    and "field usr ''role'' = JStr ''moderator''" and "field usr ''approved'' = JBool True"
    and "truthy (field d ''assessmentId'')" and "truthy (field d ''status'')"
    and "field d ''status'' \<notin> JStr ` set validStatuses"
  shows "moderateAssessment (JObj d) (Some a) now w =
           (Inl (HttpsError Internal
                   ''Status must be one of: approved, rejected, pending_changes''), w)"
  using assms
  by (simp add: moderateAssessment_def try_catch_def await_def verifyUserRole_two Let_def
        destructure_def falsy_iff array_includes_strs)

lemma moderateAssessment_approved:
  assumes "map_of (users w) (uid a) = Some usr" and "uid a \<noteq> []"
    and "field usr ''role'' = JStr ''moderator''" and "field usr ''approved'' = JBool True"
    and "field d ''assessmentId'' = JStr aid" and "aid \<noteq> []"
    and "field d ''status'' = JStr ''approved''"
    and "field d ''feedback'' = JUndefined"
    and "map_of (assessments w) aid = Some old"
  shows "moderateAssessment (JObj d) (Some a) now w =
           (Inr [(''success'', JBool True),
                 (''message'', JStr ''Assessment approved successfully'')],
            w\<lparr>assessments :=
                 AList.update aid
                   (assign old [(''status'', JStr ''approved''),
                                (''moderatorId'', JStr (uid a)),
                                (''updatedAt'', JTime now)])
                   (assessments w),
               effects := effects w @
                 [DocWrite Assessments aid
                    [(''status'', JStr ''approved''),
                     (''moderatorId'', JStr (uid a)),
                     (''updatedAt'', JTime now)]]\<rparr>)"
proof -
  have inc: "array_includes (map JStr validStatuses) (JStr ''approved'')"
    unfolding array_includes_strs by (simp add: validStatuses_def)
  show ?thesis
    using assms inc
    by (simp add: moderateAssessment_def try_catch_def await_def verifyUserRole_two Let_def
          destructure_def falsy_iff updateDoc_apply)
qed

text \<open>
  Claim C7, on the code. Every error of \<open>moderateAssessment\<close> reaches the caller as an
  \<open>HttpsError\<close> of kind \<open>internal\<close>. For an approved moderator, a status outside
  \<open>approved\<close>, \<open>rejected\<close>, \<open>pending_changes\<close> is refused and nothing is written, but the
  error the caller gets is \<open>internal\<close> with the message of the \<open>invalid-argument\<close> error
  thrown inside, not \<open>invalid-argument\<close>. With status \<open>approved\<close>, no feedback and an
  existing assessment, the call sets \<open>status\<close>, \<open>moderatorId\<close> (the caller) and
  \<open>updatedAt\<close> and nothing else: the \<open>feedback\<close> field keeps its value.
\<close>

theorem moderateAssessment_result:
  "(moderateAssessment data ctx now w = (Inl e, w') \<longrightarrow> (\<exists>m. e = HttpsError Internal m))
   \<and> (map_of (users w) (uid a) = Some usr \<and> uid a \<noteq> []
        \<and> field usr ''role'' = JStr ''moderator'' \<and> field usr ''approved'' = JBool True
        \<and> truthy (field d ''assessmentId'') \<and> truthy (field d ''status'')
        \<and> field d ''status'' \<notin> JStr ` set validStatuses \<longrightarrow>
        moderateAssessment (JObj d) (Some a) now w =
           (Inl (HttpsError Internal
                   ''Status must be one of: approved, rejected, pending_changes''), w))
   \<and> (map_of (users w) (uid a) = Some usr \<and> uid a \<noteq> []
        \<and> field usr ''role'' = JStr ''moderator'' \<and> field usr ''approved'' = JBool True
        \<and> field d ''assessmentId'' = JStr aid \<and> aid \<noteq> []
        \<and> field d ''status'' = JStr ''approved'' \<and> field d ''feedback'' = JUndefined
        \<and> map_of (assessments w) aid = Some old \<longrightarrow>
        moderateAssessment (JObj d) (Some a) now w =
           (Inr [(''success'', JBool True),
                 (''message'', JStr ''Assessment approved successfully'')],
            w\<lparr>assessments :=
                 AList.update aid
                   (assign old [(''status'', JStr ''approved''),
                                (''moderatorId'', JStr (uid a)),
                                (''updatedAt'', JTime now)])
                   (assessments w),
               effects := effects w @
                 [DocWrite Assessments aid
                    [(''status'', JStr ''approved''),
                     (''moderatorId'', JStr (uid a)),
                     (''updatedAt'', JTime now)]]\<rparr>)
        \<and> field (assign old [(''status'', JStr ''approved''),
                              (''moderatorId'', JStr (uid a)),
                              (''updatedAt'', JTime now)]) ''feedback'' = field old ''feedback'')"
proof -
  have "field (assign old [(''status'', JStr ''approved''),
                           (''moderatorId'', JStr (uid a)),
                           (''updatedAt'', JTime now)]) ''feedback'' = field old ''feedback''"
    by (simp add: field_assign)
  then show ?thesis
    using moderateAssessment_errors [of data ctx now w e w']
      moderateAssessment_bad_status [of w a usr d now]
      moderateAssessment_approved [of w a usr d aid old now]
    by blast
qed

theorem moderateAssessment_result_witness:
  "moderateAssessment (JObj [(''assessmentId'', JStr ''a1''), (''status'', JStr ''shipped'')])
        (caller ''m1'' (approved_claims ''moderator'')) 7 campus
      = (Inl (HttpsError Internal
                ''Status must be one of: approved, rejected, pending_changes''), campus)
   \<and> fst (moderateAssessment
        (JObj [(''assessmentId'', JStr ''a1''), (''status'', JStr ''approved'')])
        (caller ''m1'' (approved_claims ''moderator'')) 7 campus)
      = Inr [(''success'', JBool True),
             (''message'', JStr ''Assessment approved successfully'')]
   \<and> map_of (assessments (snd (moderateAssessment
        (JObj [(''assessmentId'', JStr ''a1''), (''status'', JStr ''approved'')])
        (caller ''m1'' (approved_claims ''moderator'')) 7 campus))) ''a1''
      = Some [(''title'', JStr ''Exam''),
              (''description'', JStr []),
              (''content'', JStr ''Q1''),
              (''type'', JStr ''exam''),
              (''status'', JStr ''approved''),
              (''lecturerId'', JStr ''u1''),
              (''moderatorId'', JStr ''m1''),
              (''feedback'', JNull),
              (''createdAt'', JTime 2),
              (''updatedAt'', JTime 7)]"
proof -
  let ?bad = "[(''assessmentId'', JStr ''a1''), (''status'', JStr ''shipped'')]"
  let ?good = "[(''assessmentId'', JStr ''a1''), (''status'', JStr ''approved'')]"
  let ?a = "\<lparr>uid = ''m1'', token = approved_claims ''moderator''\<rparr>"
  let ?old = "[(''title'', JStr ''Exam''), (''description'', JStr []),
               (''content'', JStr ''Q1''), (''type'', JStr ''exam''),
               (''status'', JStr ''draft''), (''lecturerId'', JStr ''u1''),
               (''moderatorId'', JNull), (''feedback'', JNull),
               (''createdAt'', JTime 2), (''updatedAt'', JTime 2)]"
  have m1: "map_of (users campus) (uid ?a) = Some (user_doc ''mia'' ''moderator'' True)"
    and m1n: "uid ?a \<noteq> []"
    and m1r: "field (user_doc ''mia'' ''moderator'' True) ''role'' = JStr ''moderator''"
    and m1a: "field (user_doc ''mia'' ''moderator'' True) ''approved'' = JBool True"
    by (simp_all add: campus_def user_doc_def field_Cons)
  have b: "truthy (field ?bad ''assessmentId'')" "truthy (field ?bad ''status'')"
    "field ?bad ''status'' \<notin> JStr ` set validStatuses"
    by (simp_all add: field_Cons validStatuses_def)
  have g: "field ?good ''assessmentId'' = JStr ''a1''" "''a1'' \<noteq> []"
    "field ?good ''status'' = JStr ''approved''" "field ?good ''feedback'' = JUndefined"
    "map_of (assessments campus) ''a1'' = Some ?old"
    by (simp_all add: field_Cons field_Nil campus_def)
  note inst1 = moderateAssessment_result [where w = campus and a = ?a
      and usr = "user_doc ''mia'' ''moderator'' True" and d = ?bad and now = 7]
  note inst2 = moderateAssessment_result [where w = campus and a = ?a
      and usr = "user_doc ''mia'' ''moderator'' True" and d = ?good and now = 7
      and aid = "''a1''" and old = ?old]
  from inst1 m1 m1n m1r m1a b
  have r1: "moderateAssessment (JObj ?bad) (Some ?a) 7 campus
      = (Inl (HttpsError Internal
                ''Status must be one of: approved, rejected, pending_changes''), campus)"
    by blast
  from inst2 m1 m1n m1r m1a g
  have r2: "moderateAssessment (JObj ?good) (Some ?a) 7 campus =
           (Inr [(''success'', JBool True),
                 (''message'', JStr ''Assessment approved successfully'')],
            campus\<lparr>assessments :=
                 AList.update ''a1''
                   (assign ?old [(''status'', JStr ''approved''),
                                (''moderatorId'', JStr (uid ?a)),
                                (''updatedAt'', JTime 7)])
                   (assessments campus),
               effects := effects campus @
                 [DocWrite Assessments ''a1''
                    [(''status'', JStr ''approved''),
                     (''moderatorId'', JStr (uid ?a)),
                     (''updatedAt'', JTime 7)]]\<rparr>)"
    by blast
  show ?thesis
    unfolding caller_def r1 r2
    by (simp add: update_conv' assign_def)
qed

section \<open>Approving a user twice\<close>

text \<open>
  Claim C8. \<open>approveUser(u, true)\<close> is idempotent: when an administrator calls it twice in
  succession, the second call returns what the first returned and leaves the user
  documents (their timestamp fields apart), the identity records with their attached
  claims, and the assessments as the first call left them. This holds whether or not the
  user document and the identity exist.
\<close>

theorem approveUser_idempotent:
  assumes adm: "truthy (field (token a) ''admin'')"
    and uid: "field d ''userId'' = JStr u"
    and appr: "field d ''approved'' = JBool True"
    and one: "approveUser (JObj d) (Some a) t1 w = (r1, w1)"
    and two: "approveUser (JObj d) (Some a) t2 w1 = (r2, w2)"
  shows "r2 = r1 \<and> untimed_docs (users w2) = untimed_docs (users w1)
         \<and> identities w2 = identities w1 \<and> assessments w2 = assessments w1"
proof (cases "u = []")
  case True
  then show ?thesis
    using one two approveUser_empty_id [OF adm] uid by simp
next
  case False
  note ap = approveUser_apply [OF adm uid False appr]
  show ?thesis
  proof (cases "map_of (users w) u")
    case None
    then show ?thesis using one two by (auto simp: ap)
  next
    case (Some usr)
    show ?thesis
    proof (cases "map_of (identities w) u")
      case None
      then show ?thesis
        using one two Some
        by (auto simp: ap Let_def update_conv' untimed_docs_update untimed_assign_approved)
    next
      case (Some r)
      then show ?thesis
        using one two \<open>map_of (users w) u = Some usr\<close>
        by (auto simp: ap Let_def update_conv' untimed_docs_update untimed_assign_approved
              field_assign)
    qed
  qed
qed

theorem approveUser_idempotent_witness:
  "untimed_docs (users (snd (approveUser (JObj [(''userId'', JStr ''u2''), (''approved'', JBool True)])
        root_caller 9
        (snd (approveUser (JObj [(''userId'', JStr ''u2''), (''approved'', JBool True)])
                root_caller 7 campus)))))
   = untimed_docs (users (snd (approveUser
        (JObj [(''userId'', JStr ''u2''), (''approved'', JBool True)]) root_caller 7 campus)))
   \<and> identities (snd (approveUser (JObj [(''userId'', JStr ''u2''), (''approved'', JBool True)])
        root_caller 9
        (snd (approveUser (JObj [(''userId'', JStr ''u2''), (''approved'', JBool True)])
                root_caller 7 campus))))
   = identities (snd (approveUser
        (JObj [(''userId'', JStr ''u2''), (''approved'', JBool True)]) root_caller 7 campus))
   \<and> map_of (identities (snd (approveUser
        (JObj [(''userId'', JStr ''u2''), (''approved'', JBool True)]) root_caller 7 campus))) ''u2''
   = Some [(''email'', JStr ''max@example.org''),
           (''customClaims'', JObj (approved_claims ''lecturer''))]
   \<and> field (the (map_of (users (snd (approveUser
        (JObj [(''userId'', JStr ''u2''), (''approved'', JBool True)]) root_caller 7 campus))) ''u2''))
        ''approved'' = JBool True"
proof -
  let ?a = "\<lparr>uid = ''root'', token = approved_claims ''admin''\<rparr>"
  let ?d = "[(''userId'', JStr ''u2''), (''approved'', JBool True)]"
  have h1: "truthy (field (token ?a) ''admin'')"
    by (simp add: field_def approved_claims_def)
  have h2: "field ?d ''userId'' = JStr ''u2''" and h3: "field ?d ''approved'' = JBool True"
    and h4: "''u2'' \<noteq> []"
    by (simp_all add: field_def)
  have once: "map_of (identities (snd (approveUser (JObj ?d) (Some ?a) 7 campus))) ''u2''
       = Some [(''email'', JStr ''max@example.org''),
               (''customClaims'', JObj (approved_claims ''lecturer''))]
     \<and> field (the (map_of (users (snd (approveUser (JObj ?d) (Some ?a) 7 campus))) ''u2''))
          ''approved'' = JBool True"
    unfolding approveUser_apply [OF h1 h2 h4 h3]
    by (simp add: campus_def example_defs js_or_def approved_claims_def assign_def field_def Let_def)
  show ?thesis
    using approveUser_idempotent [OF h1 h2 h3 surjective_pairing surjective_pairing,
        of 9 7 campus] once
    by (simp add: example_defs)
qed

section \<open>The trigger on a user update\<close>

text \<open>
  Claim C9. Let the store hold the document \<open>after\<close> that an update of user \<open>u\<close> produced,
  its role a string (or any other primitive value), and let the update trigger run for
  that change. Afterwards the document has the same role and differs from \<open>after\<close> in
  \<open>customClaims\<close> and \<open>updatedAt\<close> at most; every document write the trigger made is a
  write of exactly these two fields of \<open>u\<close>; and the trigger run again, for the change
  from \<open>after\<close> to the document as it is now, returns without any write at all: the state
  and the log of writes are unchanged.
\<close>

theorem onUserUpdate_no_retrigger:
  assumes stored: "map_of (users w) u = Some after"
    and prim: "is_ref (field after ''role'') = False"
    and run: "onUserUpdate u before after now w = (r, w')"
  shows "\<exists>d'. map_of (users w') u = Some d'
           \<and> field d' ''role'' = field after ''role''
           \<and> (\<forall>k. k \<noteq> ''customClaims'' \<and> k \<noteq> ''updatedAt'' \<longrightarrow> field d' k = field after k)
           \<and> (\<forall>e \<in> set (new_effects w w'). \<forall>c i data. e = DocWrite c i data \<longrightarrow>
                  c = Users \<and> i = u \<and> map fst data = [''customClaims'', ''updatedAt''])
           \<and> onUserUpdate u after d' now' w' = (Inr JNull, w')"
  using assms
  by (auto simp: onUserUpdate_apply Let_def update_conv' field_assign strict_eq_def
        new_effects_def
      split: if_splits option.splits)

theorem onUserUpdate_no_retrigger_witness:
  "map_of (users campus_promoted) ''u1'' = Some (user_doc ''lee'' ''moderator'' True)
   \<and> new_effects campus_promoted
        (snd (onUserUpdate ''u1'' (user_doc ''lee'' ''lecturer'' True)
                (user_doc ''lee'' ''moderator'' True) 8 campus_promoted))
      = [SetClaims ''u1'' [(''admin'', JBool False), (''moderator'', JBool True),
                           (''lecturer'', JBool False)],
         DocWrite Users ''u1''
           [(''customClaims'', JObj [(''admin'', JBool False), (''moderator'', JBool True),
                                     (''lecturer'', JBool False)]),
            (''updatedAt'', JTime 8)]]
   \<and> onUserUpdate ''u1'' (user_doc ''lee'' ''moderator'' True)
        (the (map_of (users (snd (onUserUpdate ''u1'' (user_doc ''lee'' ''lecturer'' True)
                (user_doc ''lee'' ''moderator'' True) 8 campus_promoted))) ''u1''))
        9
        (snd (onUserUpdate ''u1'' (user_doc ''lee'' ''lecturer'' True)
                (user_doc ''lee'' ''moderator'' True) 8 campus_promoted))
      = (Inr JNull, snd (onUserUpdate ''u1'' (user_doc ''lee'' ''lecturer'' True)
                (user_doc ''lee'' ''moderator'' True) 8 campus_promoted))"
proof -
  let ?run = "onUserUpdate ''u1'' (user_doc ''lee'' ''lecturer'' True)
                (user_doc ''lee'' ''moderator'' True) 8 campus_promoted"
  have h1: "map_of (users campus_promoted) ''u1'' = Some (user_doc ''lee'' ''moderator'' True)"
    by (simp add: campus_promoted_def campus_def)
  have h2: "is_ref (field (user_doc ''lee'' ''moderator'' True) ''role'') = False"
    by (simp add: example_defs field_def)
  have eff: "new_effects campus_promoted (snd ?run)
      = [SetClaims ''u1'' [(''admin'', JBool False), (''moderator'', JBool True),
                           (''lecturer'', JBool False)],
         DocWrite Users ''u1''
           [(''customClaims'', JObj [(''admin'', JBool False), (''moderator'', JBool True),
                                     (''lecturer'', JBool False)]),
            (''updatedAt'', JTime 8)]]"
    unfolding onUserUpdate_apply
    by (simp add: campus_promoted_def campus_def example_defs field_def role_flags_eq
          new_effects_def Let_def)
  from onUserUpdate_no_retrigger [where before = "user_doc ''lee'' ''lecturer'' True"
      and now = 8 and now' = 9, OF h1 h2 surjective_pairing]
  obtain d' where d': "map_of (users (snd ?run)) ''u1'' = Some d'"
    and again: "onUserUpdate ''u1'' (user_doc ''lee'' ''moderator'' True) d' 9 (snd ?run)
                  = (Inr JNull, snd ?run)"
    by blast
  show ?thesis
    using h1 eff d' again by simp
qed

section \<open>Rejecting a user\<close>

text \<open>
  Claim C10. \<open>approveUser(u, false)\<close>, called by an administrator on an existing user,
  succeeds, sets the \<open>approved\<close> field of the user's document to \<open>false\<close> (and
  \<open>updatedAt\<close>), and makes no other write: the identity provider's records, and with
  them every claims record attached earlier, stay as they were.
\<close>

theorem approveUser_false_keeps_claims:
  assumes "truthy (field (token a) ''admin'')"
    and "field d ''userId'' = JStr u" and "u \<noteq> []"
    and "field d ''approved'' = JBool False"
    and "map_of (users w) u = Some usr"
  shows "approveUser (JObj d) (Some a) now w =
           (Inr [(''success'', JBool True), (''message'', JStr ''User rejected successfully'')],
            w\<lparr>users := AList.update u
                   (assign usr [(''approved'', JBool False), (''updatedAt'', JTime now)]) (users w),
              effects := effects w @
                   [DocWrite Users u [(''approved'', JBool False), (''updatedAt'', JTime now)]]\<rparr>)
       \<and> identities (snd (approveUser (JObj d) (Some a) now w)) = identities w
       \<and> (\<exists>usr'. map_of (users (snd (approveUser (JObj d) (Some a) now w))) u = Some usr'
             \<and> field usr' ''approved'' = JBool False)"
  using assms
  by (simp add: approveUser_def try_catch_def await_def destructure_def updateDoc_apply
        falsy_iff Let_def update_conv' field_assign)

theorem approveUser_false_keeps_claims_witness:
  "map_of (identities campus) ''u1''
     = Some [(''email'', JStr ''lee@example.org''),
             (''customClaims'', JObj (approved_claims ''lecturer''))]
   \<and> identities (snd (approveUser (JObj [(''userId'', JStr ''u1''), (''approved'', JBool False)])
                         root_caller 7 campus)) = identities campus
   \<and> field (the (map_of (users (snd (approveUser
                (JObj [(''userId'', JStr ''u1''), (''approved'', JBool False)])
                root_caller 7 campus))) ''u1'')) ''approved'' = JBool False"
proof -
  let ?a = "\<lparr>uid = ''root'', token = approved_claims ''admin''\<rparr>"
  let ?d = "[(''userId'', JStr ''u1''), (''approved'', JBool False)]"
  have h1: "truthy (field (token ?a) ''admin'')"
    by (simp add: field_def approved_claims_def)
  have h2: "field ?d ''userId'' = JStr ''u1''" and h3: "''u1'' \<noteq> []"
    and h4: "field ?d ''approved'' = JBool False"
    by (simp_all add: field_def)
  have h5: "map_of (users campus) ''u1'' = Some (user_doc ''lee'' ''lecturer'' True)"
    by (simp add: campus_def)
  have c: "map_of (identities campus) ''u1''
     = Some [(''email'', JStr ''lee@example.org''),
             (''customClaims'', JObj (approved_claims ''lecturer''))]"
    by (simp add: campus_def)
  show ?thesis
    using approveUser_false_keeps_claims [OF h1 h2 h3 h4 h5, of 7] c
    by (auto simp: example_defs)
qed

end
